theory Spec2Isabelle
  imports Main "HOL-Library.Sublist" "HOL-Library.AList"
begin

section \<open>RemoteBuildManager: values of the JavaScript runtime\<close>

text \<open>
  The development embeds \<^verbatim>\<open>RemoteBuildManager.ts\<close>. A JavaScript string is held as
  the list of bytes of its UTF-8 form: the source only concatenates strings, tests them for
  emptiness and for ASCII prefixes and suffixes, and percent-encodes them as UTF-8, and all
  of these agree on the UTF-8 bytes. A \<^verbatim>\<open>Buffer\<close> is a list of bytes too.
\<close>

type_synonym bytes = string

text \<open>
  A decoded JSON value, as \<^verbatim>\<open>JSON.parse\<close> or the event parser hands it to the code.
  A number is kept as the text JavaScript prints for it (the code only ever prints numbers);
  an object is the list of its own properties in property order, with distinct keys.
\<close>

datatype json =
    JNull
  | JBool bool
  | JNumber string
  | JString string
  | JArray "json list"
  | JObject "(string \<times> json) list"

text \<open>The errors the code creates, and the ones its collaborators hand to it.\<close>

datatype js_error =
    Error string                     \<comment> \<open>\<^verbatim>\<open>new Error(message)\<close>\<close>
  | HttpError int "string option"    \<comment> \<open>\<^verbatim>\<open>new HttpError(status, description?)\<close>\<close>
  | Emitted string                   \<comment> \<open>an error object passed in by an emitter or a rejected promise\<close>
  | SyntaxError                      \<comment> \<open>thrown by \<^verbatim>\<open>JSON.parse\<close>\<close>
  | TypeError                        \<comment> \<open>thrown by a property read on \<^verbatim>\<open>null\<close> and by \<^verbatim>\<open>in\<close> on a primitive\<close>

definition startsWith :: "string \<Rightarrow> string \<Rightarrow> bool" where
  "startsWith s p = prefix p s"

definition endsWith :: "string \<Rightarrow> string \<Rightarrow> bool" where
  "endsWith s p = suffix p s"

fun join :: "string \<Rightarrow> string list \<Rightarrow> string" where
  "join sep [] = []"
| "join sep [x] = x"
| "join sep (x # y # ys) = x @ sep @ join sep (y # ys)"

text \<open>Property read \<^verbatim>\<open>v.k\<close> on a value that is not \<^verbatim>\<open>null\<close>; \<open>None\<close> is \<^verbatim>\<open>undefined\<close>.
  Only the keys \<^verbatim>\<open>id\<close>, \<^verbatim>\<open>error\<close>, \<^verbatim>\<open>state\<close> and \<^verbatim>\<open>files\<close> are read, which no prototype
  defines, so only an object's own properties answer.\<close>

fun get_prop :: "json \<Rightarrow> string \<Rightarrow> json option" where
  "get_prop (JObject kvs) k = map_of kvs k"
| "get_prop v k = None"

text \<open>\<^verbatim>\<open>x != null\<close>: neither \<^verbatim>\<open>undefined\<close> nor \<^verbatim>\<open>null\<close>.\<close>

fun not_nullish :: "json option \<Rightarrow> bool" where
  "not_nullish None = False"
| "not_nullish (Some JNull) = False"
| "not_nullish (Some v) = True"

text \<open>The string a template literal \<^verbatim>\<open>`${v}`\<close> puts in for a value.\<close>

fun js_toString :: "json \<Rightarrow> string" where
  "js_toString JNull = ''null''"
| "js_toString (JBool b) = (if b then ''true'' else ''false'')"
| "js_toString (JNumber s) = s"
| "js_toString (JString s) = s"
| "js_toString (JArray xs) =
     join '','' (map (\<lambda>x. if x = JNull then [] else js_toString x) xs)"
| "js_toString (JObject kvs) = ''[object Object]''"

subsection \<open>JSON.stringify\<close>

definition hex_lower :: "nat \<Rightarrow> char" where
  "hex_lower n = ''0123456789abcdef'' ! (n mod 16)"

text \<open>\<^verbatim>\<open>QuoteJSONString\<close> of ECMAScript: the short escapes, a six-character unicode escape for the other control
  characters, every other byte as it is.\<close>

definition quote_char :: "char \<Rightarrow> string" where
  "quote_char c =
     (let n = (of_char c :: nat) in
      if n = 8 then [CHR 0x5C, CHR ''b'']
      else if n = 9 then [CHR 0x5C, CHR ''t'']
      else if n = 10 then [CHR 0x5C, CHR ''n'']
      else if n = 12 then [CHR 0x5C, CHR ''f'']
      else if n = 13 then [CHR 0x5C, CHR ''r'']
      else if n = 34 then [CHR 0x5C, CHR 0x22]
      else if n = 92 then [CHR 0x5C, CHR 0x5C]
      else if n < 32 then [CHR 0x5C, CHR ''u'', CHR ''0'', CHR ''0'', hex_lower (n div 16), hex_lower n]
      else [c])"

definition QuoteJSONString :: "string \<Rightarrow> string" where
  "QuoteJSONString s = CHR 0x22 # concat (map quote_char s) @ [CHR 0x22]"

text \<open>\<^verbatim>\<open>SerializeJSONProperty\<close> with the gap \<open>gap\<close> (empty for the compact form) at the
  current indentation \<open>indent\<close>.\<close>

fun SerializeJSON :: "string \<Rightarrow> string \<Rightarrow> json \<Rightarrow> string" where
  "SerializeJSON gap indent JNull = ''null''"
| "SerializeJSON gap indent (JBool b) = (if b then ''true'' else ''false'')"
| "SerializeJSON gap indent (JNumber s) = s"
| "SerializeJSON gap indent (JString s) = QuoteJSONString s"
| "SerializeJSON gap indent (JArray xs) =
     (let stepback = indent;
          indent' = indent @ gap;
          partial = map (SerializeJSON gap indent') xs
      in if partial = [] then ''[]''
         else if gap = [] then ''['' @ join '','' partial @ '']''
         else ''['' @ [CHR 0x0A] @ indent' @ join ('','' @ [CHR 0x0A] @ indent') partial
              @ [CHR 0x0A] @ stepback @ '']'')"
| "SerializeJSON gap indent (JObject kvs) =
     (let stepback = indent;
          indent' = indent @ gap;
          partial = map (\<lambda>kv. QuoteJSONString (fst kv) @ '':'' @ (if gap = [] then [] else '' '')
                                 @ SerializeJSON gap indent' (snd kv)) kvs
      in if partial = [] then ''{}''
         else if gap = [] then ''{'' @ join '','' partial @ ''}''
         else ''{'' @ [CHR 0x0A] @ indent' @ join ('','' @ [CHR 0x0A] @ indent') partial
              @ [CHR 0x0A] @ stepback @ ''}'')"

text \<open>\<^verbatim>\<open>JSON.stringify(v)\<close> and \<^verbatim>\<open>JSON.stringify(v, null, 2)\<close>.\<close>

definition JSON_stringify :: "json \<Rightarrow> string" where
  "JSON_stringify v = SerializeJSON [] [] v"

definition JSON_stringify2 :: "json \<Rightarrow> string" where
  "JSON_stringify2 v = SerializeJSON ''  '' [] v"

section \<open>Compression level\<close>

text \<open>\<^verbatim>\<open>getZstdCompressionLevel(endpoint)\<close>; the first argument is the value of
  \<^verbatim>\<open>process.env.ELECTRON_BUILD_SERVICE_ZSTD_COMPRESSION\<close>, \<open>None\<close> when it is not set.\<close>

definition getZstdCompressionLevel :: "string option \<Rightarrow> string \<Rightarrow> string" where
  "getZstdCompressionLevel env endpoint =
     (case env of
        Some result \<Rightarrow> result
      | None \<Rightarrow>
          (if startsWith endpoint ''https://127.0.0.1:'' \<or> startsWith endpoint ''https://localhost:''
              \<or> startsWith endpoint ''[::1]:''
           then ''3'' else ''19''))"

section \<open>The download path\<close>

text \<open>
  \<^verbatim>\<open>new URL(`f:/${id}/${artifact.file}`).pathname\<close>, following the basic URL parser of the URL
  Standard. The input starts with \<^verbatim>\<open>f:/\<close>, so its scheme is \<^verbatim>\<open>f\<close>, which is not a special
  scheme, and the functions below work on the text that follows \<^verbatim>\<open>f:/\<close>. Trailing C0
  control or space is removed, then every tab and newline. If what is left starts with a
  slash, an authority is read up to the next \<^verbatim>\<open>/\<close>, \<^verbatim>\<open>?\<close> or \<^verbatim>\<open>#\<close>; otherwise the path state
  collects segments up to the first \<^verbatim>\<open>?\<close> or \<^verbatim>\<open>#\<close>, percent-encoding the bytes of the path
  percent-encode set.
\<close>

definition is_c0_control_or_space :: "char \<Rightarrow> bool" where
  "is_c0_control_or_space c = ((of_char c :: nat) \<le> 0x20)"

definition is_tab_or_newline :: "char \<Rightarrow> bool" where
  "is_tab_or_newline c = ((of_char c :: nat) = 0x09 \<or> (of_char c :: nat) = 0x0A \<or> (of_char c :: nat) = 0x0D)"

text \<open>The input starts with the letter \<^verbatim>\<open>f\<close>, so only its end is trimmed.\<close>

definition url_preprocess :: "string \<Rightarrow> string" where
  "url_preprocess rest =
     filter (\<lambda>c. \<not> is_tab_or_newline c) (rev (dropWhile is_c0_control_or_space (rev rest)))"

definition hex_upper :: "nat \<Rightarrow> char" where
  "hex_upper n = ''0123456789ABCDEF'' ! (n mod 16)"

definition percent_encode_byte :: "char \<Rightarrow> string" where
  "percent_encode_byte c = [CHR ''%'', hex_upper ((of_char c :: nat) div 16), hex_upper (of_char c)]"

text \<open>The path percent-encode set, read on the bytes of the UTF-8 form: every byte of a
  code point above \<^verbatim>\<open>~\<close> is encoded.\<close>

definition in_path_percent_encode_set :: "char \<Rightarrow> bool" where
  "in_path_percent_encode_set c =
     ((of_char c :: nat) < 0x20 \<or> (of_char c :: nat) > 0x7E
      \<or> c \<in> set [CHR '' '', CHR 0x22, CHR ''#'', CHR ''<'', CHR ''>'',
                  CHR ''?'', CHR 0x60, CHR ''{'', CHR ''}''])"

definition utf8_percent_encode_path :: "char \<Rightarrow> string" where
  "utf8_percent_encode_path c = (if in_path_percent_encode_set c then percent_encode_byte c else [c])"

definition is_single_dot_segment :: "string \<Rightarrow> bool" where
  "is_single_dot_segment buf = (buf \<in> set [''.'', ''%2e'', ''%2E''])"

definition is_double_dot_segment :: "string \<Rightarrow> bool" where
  "is_double_dot_segment buf =
     (buf \<in> set [''..'', ''.%2e'', ''.%2E'', ''%2e.'', ''%2E.'',
                  ''%2e%2e'', ''%2e%2E'', ''%2E%2e'', ''%2E%2E''])"

text \<open>The end of a segment in the path state; \<open>slash\<close> says that the delimiter is a slash
  (and not the end of the input, \<^verbatim>\<open>?\<close> or \<^verbatim>\<open>#\<close>). Shortening the path of a URL whose
  scheme is not \<^verbatim>\<open>file\<close> removes its last segment, if any.\<close>

definition end_segment :: "bool \<Rightarrow> string \<Rightarrow> string list \<Rightarrow> string list" where
  "end_segment slash buf path =
     (if is_double_dot_segment buf then
        (let shortened = butlast path in if slash then shortened else shortened @ [[]])
      else if is_single_dot_segment buf \<and> \<not> slash then path @ [[]]
      else if \<not> is_single_dot_segment buf then path @ [buf]
      else path)"

fun path_state :: "string \<Rightarrow> string \<Rightarrow> string list \<Rightarrow> string list" where
  "path_state [] buf path = end_segment False buf path"
| "path_state (c # cs) buf path =
     (if c = CHR ''/'' then path_state cs [] (end_segment True buf path)
      else if c = CHR ''?'' \<or> c = CHR ''#'' then end_segment False buf path
      else path_state cs (buf @ utf8_percent_encode_path c) path)"

definition serialize_path :: "string list \<Rightarrow> string" where
  "serialize_path path = concat (map (\<lambda>segment. CHR ''/'' # segment) path)"

definition ends_authority :: "char \<Rightarrow> bool" where
  "ends_authority c = (c = CHR ''/'' \<or> c = CHR ''?'' \<or> c = CHR ''#'')"

text \<open>
  \<^verbatim>\<open>new URL("f:/" + rest).pathname\<close>; \<open>None\<close> when \<^verbatim>\<open>new URL\<close> throws. Without an authority
  the parser accepts every input. With one (\<open>rest\<close> starts with a slash, which is the second
  slash of the URL) the runtime reads credentials, a host and a port from it and throws if
  it finds them ill-formed; that decision is the parameter \<open>accepts\<close>. After an accepted
  authority the path is what follows the next slash, and it is empty if none follows.
\<close>

definition URL_pathname :: "(string \<Rightarrow> bool) \<Rightarrow> string \<Rightarrow> string option" where
  "URL_pathname accepts rest =
     (case url_preprocess rest of
        [] \<Rightarrow> Some (serialize_path (path_state [] [] []))
      | c # cs \<Rightarrow>
          if c = CHR ''/'' then
            (if accepts (takeWhile (\<lambda>c. \<not> ends_authority c) cs) then
               (case dropWhile (\<lambda>c. \<not> ends_authority c) cs of
                  [] \<Rightarrow> Some []
                | d # ds \<Rightarrow> if d = CHR ''/'' then Some (serialize_path (path_state ds [] [])) else Some [])
             else None)
          else Some (serialize_path (path_state (c # cs) [] [])))"

text \<open>Percent-decoding, as the receiver of the request path applies it: every
  \<^verbatim>\<open>%\<close> followed by two hexadecimal digits is the byte they write.\<close>

definition hex_value :: "char \<Rightarrow> nat option" where
  "hex_value c =
     (let n = (of_char c :: nat) in
      if 48 \<le> n \<and> n \<le> 57 then Some (n - 48)
      else if 65 \<le> n \<and> n \<le> 70 then Some (n - 55)
      else if 97 \<le> n \<and> n \<le> 102 then Some (n - 87)
      else None)"

fun percent_decode :: "string \<Rightarrow> string" where
  "percent_decode (c # h # l # cs) =
     (case (c = CHR ''%'', hex_value h, hex_value l) of
        (True, Some a, Some b) \<Rightarrow> char_of (16 * a + b) # percent_decode cs
      | _ \<Rightarrow> c # percent_decode (h # l # cs))"
| "percent_decode (c # cs) = c # percent_decode cs"
| "percent_decode [] = []"

section \<open>The session: data\<close>

text \<open>
  What the manager is built from and what its surroundings provide. The two environment
  variables read by \<^verbatim>\<open>getConnectOptions\<close>, the one read by \<^verbatim>\<open>getZstdCompressionLevel\<close>
  and \<^verbatim>\<open>debug.enabled\<close> are taken as fixed while a job runs. \<^verbatim>\<open>JSON.parse\<close>, \<^verbatim>\<open>path.join\<close>,
  \<^verbatim>\<open>path.dirname\<close> and the test that the URL parser makes on an authority belong to the
  runtime and are parameters; \<^verbatim>\<open>JSON_parse\<close> answers \<open>None\<close> where the runtime throws a
  \<^verbatim>\<open>SyntaxError\<close>.
\<close>

record config =
  buildServiceEndpoint :: string
  unpackedDirectory :: string
  outDir :: string
  projectDir :: string                          \<comment> \<open>\<^verbatim>\<open>projectInfoManager.packager.projectDir\<close>\<close>
  buildResourcesDir :: string                   \<comment> \<open>\<^verbatim>\<open>projectInfoManager.packager.buildResourcesDir\<close>\<close>
  packager_config :: "string \<Rightarrow> json option"     \<comment> \<open>\<^verbatim>\<open>(this.packager.config as any)[target]\<close>\<close>
  path7za :: string
  env_CA_CERT :: "string option"                \<comment> \<open>\<^verbatim>\<open>process.env.ELECTRON_BUILD_SERVICE_CA_CERT\<close>\<close>
  env_USE_LOCAL_CA :: bool                      \<comment> \<open>\<^verbatim>\<open>isEnvTrue(process.env.USE_ELECTRON_BUILD_SERVICE_LOCAL_CA)\<close>\<close>
  env_ZSTD_COMPRESSION :: "string option"
  debug_enabled :: bool
  JSON_parse :: "string \<Rightarrow> json option"
  path_join :: "string \<Rightarrow> string \<Rightarrow> string"
  path_dirname :: "string \<Rightarrow> string"
  URL_accepts_authority :: "string \<Rightarrow> bool"

datatype ca_cert =
    FromEnv string
  | ELECTRON_BUILD_SERVICE_LOCAL_CA_CERT
  | ELECTRON_BUILD_SERVICE_CA_CERT

record SecureClientSessionOptions =
  ca :: "ca_cert option"
  checkServerIdentity_off :: bool               \<comment> \<open>\<^verbatim>\<open>checkServerIdentity = () => undefined\<close>\<close>

text \<open>
  An entry of the manifest is whatever the server has sent there: the code tests no type.
  Where \<^verbatim>\<open>downloadFile\<close> has gone past \<^verbatim>\<open>path.join\<close> the entry has a \<^verbatim>\<open>file\<close> that is a string,
  so it is an object, and \<open>ArtifactInfo\<close> is the list of its properties.
\<close>

type_synonym ArtifactInfo = "(string \<times> json) list"

text \<open>\<^verbatim>\<open>new FakeTarget(name, outDir, options)\<close>; the name is the \<^verbatim>\<open>target\<close> of the entry as it
  was sent.\<close>

record FakeTarget =
  name :: json
  target_outDir :: string
  options :: "json option"

text \<open>The values of the properties of the event given to \<^verbatim>\<open>dispatchArtifactCreated\<close>: what
  the spread copies from the entry, a \<^verbatim>\<open>Buffer\<close>, the target, and the packager, which is the
  same reference in every event.\<close>

datatype js_value =
    Json json
  | Buffer bytes
  | Target FakeTarget
  | Packager

type_synonym ArtifactCreated = "(string \<times> js_value) list"

datatype 'a promise = Pending | Fulfilled 'a | Rejected js_error

datatype stream = UploadStream | StatusStream | DownloadStream nat

text \<open>What the code does to its surroundings, in the order it does it.\<close>

datatype effect =
    Connect string SecureClientSessionOptions
  | Request "(string \<times> string) list"       \<comment> \<open>\<^verbatim>\<open>client.request(headers)\<close>\<close>
  | StreamDestroy stream
  | SessionDestroy                           \<comment> \<open>\<^verbatim>\<open>this.client.destroy()\<close>\<close>
  | SetTimeout int
  | Spawn string "string list"
  | PipeTarToZstd
  | PipeZstdToUpload
  | EnsureDir string
  | CreateWriteStream string int
  | PipeDownloadToFile nat string
  | OutputFile string bytes
  | DispatchArtifactCreated ArtifactCreated
  | Log string
  | LogValue json
  | LogTimed string                          \<comment> \<open>a message that ends in a timer reading, which is left out\<close>
  | Warn string
  | Debug string

datatype upload_phase =
    UpNone
  | UpRequested                \<comment> \<open>the \<^verbatim>\<open>response\<close> listener waits\<close>
  | UpReceiving int string     \<comment> \<open>status and the \<^verbatim>\<open>data\<close> read so far\<close>
  | UpClosed                   \<comment> \<open>no listener but \<^verbatim>\<open>error\<close> is left\<close>

datatype pipeline_phase =
    NotStarted
  | AwaitInfoFile string       \<comment> \<open>\<^verbatim>\<open>infoFile.value\<close> is pending; the compression level\<close>
  | Compressing
  | InfoFileFailed

datatype timer_phase = NoTimer | TimerSet json | TimerFired

datatype status_phase = StNone | StRequested | StReceiving | StClosed

datatype download_phase =
    DlRequested
  | DlBuffering
  | DlWriting
  | DlEnsuringDir
  | DlPiping
  | DlClosed
  | DlDone

text \<open>What the closures of one call of \<^verbatim>\<open>downloadFile\<close> hold.\<close>

record download =
  artifact :: ArtifactInfo
  localFile :: string
  artifactCreatedEvent :: ArtifactCreated
  buffers :: "bytes list"
  phase :: download_phase

text \<open>\<open>files\<close> is \<^verbatim>\<open>this.files\<close>: \<open>None\<close> is the \<^verbatim>\<open>null\<close> of the declaration, \<open>Some v\<close> the
  value of \<^verbatim>\<open>data.files\<close> that has been assigned. \<open>halted\<close> is the exception that has left a
  listener, if one has.\<close>

record state =
  job :: "json option promise"       \<comment> \<open>the promise \<^verbatim>\<open>build\<close> returns; \<open>None\<close> is \<^verbatim>\<open>null\<close>\<close>
  handled :: bool
  close_armed :: bool
  timeout_armed :: bool
  upload_st :: upload_phase
  pipeline :: pipeline_phase
  grace :: timer_phase
  listen :: "json option promise"    \<comment> \<open>the promise of \<^verbatim>\<open>listenEvents\<close>\<close>
  job_id :: "json option"
  status_st :: status_phase
  files :: "json option"
  finishedStreamCount :: nat
  downloads :: "download list"
  effects :: "effect list"
  halted :: "js_error option"

section \<open>The session: operations\<close>

definition emit :: "effect \<Rightarrow> state \<Rightarrow> state" where
  "emit e s = s\<lparr>effects := effects s @ [e]\<rparr>"

definition debug :: "config \<Rightarrow> string \<Rightarrow> state \<Rightarrow> state" where
  "debug cfg msg s = (if debug_enabled cfg then emit (Debug msg) s else s)"

text \<open>An exception leaves the listener that runs.\<close>

definition throw :: "js_error \<Rightarrow> state \<Rightarrow> state" where
  "throw e s = s\<lparr>halted := Some e\<rparr>"

definition getConnectOptions :: "config \<Rightarrow> SecureClientSessionOptions" where
  "getConnectOptions cfg =
     (if env_CA_CERT cfg \<noteq> Some ''false'' then
        \<lparr>ca = Some (case env_CA_CERT cfg of
                       Some c \<Rightarrow> (if c \<noteq> [] then FromEnv c
                                  else if env_USE_LOCAL_CA cfg then ELECTRON_BUILD_SERVICE_LOCAL_CA_CERT
                                  else ELECTRON_BUILD_SERVICE_CA_CERT)
                     | None \<Rightarrow> (if env_USE_LOCAL_CA cfg then ELECTRON_BUILD_SERVICE_LOCAL_CA_CERT
                                else ELECTRON_BUILD_SERVICE_CA_CERT)),
         checkServerIdentity_off = True\<rparr>
      else \<lparr>ca = None, checkServerIdentity_off = False\<rparr>)"

text \<open>The constructor: the fields as declared, and the connection.\<close>

definition RemoteBuildManager :: "config \<Rightarrow> state" where
  "RemoteBuildManager cfg =
     (let s0 = \<lparr>job = Pending, handled = False, close_armed = False, timeout_armed = False,
                upload_st = UpNone, pipeline = NotStarted, grace = NoTimer, listen = Pending,
                job_id = None, status_st = StNone, files = None, finishedStreamCount = 0,
                downloads = [], effects = [], halted = None\<rparr>;
          s1 = debug cfg (''Connect to remote build service: '' @ buildServiceEndpoint cfg) s0;
          s2 = (if env_CA_CERT cfg \<noteq> Some ''false'' \<and> env_USE_LOCAL_CA cfg
                then debug cfg ''Local certificate authority is used'' s1 else s1)
      in emit (Connect (buildServiceEndpoint cfg) (getConnectOptions cfg)) s2)"

text \<open>
  The promise of \<^verbatim>\<open>build\<close> settles once, and its \<^verbatim>\<open>finally\<close> callback, which destroys the
  session, runs when it settles; the model runs it in the same step. \<open>reject\<close> is the
  promise's own \<^verbatim>\<open>reject\<close>, \<open>build_resolve\<close> the arrow function
  \<^verbatim>\<open>result => { handled = true; resolve(result) }\<close>.
\<close>

definition reject :: "js_error \<Rightarrow> state \<Rightarrow> state" where
  "reject e s = (if job s = Pending then emit SessionDestroy (s\<lparr>job := Rejected e\<rparr>) else s)"

definition build_resolve :: "json option \<Rightarrow> state \<Rightarrow> state" where
  "build_resolve result s =
     (let s' = s\<lparr>handled := True\<rparr>
      in if job s' = Pending then emit SessionDestroy (s'\<lparr>job := Fulfilled result\<rparr>) else s')"

text \<open>The promise of \<^verbatim>\<open>listenEvents\<close>, with \<^verbatim>\<open>.then(resolve).catch(reject)\<close> attached; the
  model passes a settlement on in the same step.\<close>

definition listen_resolve :: "json option \<Rightarrow> state \<Rightarrow> state" where
  "listen_resolve result s =
     (if listen s = Pending then build_resolve result (s\<lparr>listen := Fulfilled result\<rparr>) else s)"

definition listen_reject :: "js_error \<Rightarrow> state \<Rightarrow> state" where
  "listen_reject e s =
     (if listen s = Pending then reject e (s\<lparr>listen := Rejected e\<rparr>) else s)"

definition HTTP_STATUS_OK :: int where
  "HTTP_STATUS_OK = 200"

definition HTTP_STATUS_BAD_REQUEST :: int where
  "HTTP_STATUS_BAD_REQUEST = 400"

text \<open>\<^verbatim>\<open>checkStatus(status, reject)\<close>: the answer and the state after it.\<close>

definition checkStatus :: "int \<Rightarrow> (js_error \<Rightarrow> state \<Rightarrow> state) \<Rightarrow> state \<Rightarrow> bool \<times> state" where
  "checkStatus status rej s =
     (if status = HTTP_STATUS_OK then (True, s) else (False, rej (HttpError status None) s))"

subsection \<open>Upload\<close>

definition buildResources_message :: string where
  "buildResources_message =
     ''Build resources dir equals to project dir and so, not sent to remote build agent. It will lead to incorrect results.''
     @ [CHR 0x0A] @ ''Please set '' @ [CHR 0x22] @ ''directories.buildResources'' @ [CHR 0x22]
     @ '' to separate dir or leave default ('' @ [CHR 0x22] @ ''build'' @ [CHR 0x22]
     @ '' directory in the project root)''"

definition uploadUnpackedAppArchive :: "config \<Rightarrow> string \<Rightarrow> state \<Rightarrow> state" where
  "uploadUnpackedAppArchive cfg zstdCompressionLevel s =
     (if buildResourcesDir cfg = projectDir cfg then reject (Error buildResources_message) s
      else s\<lparr>pipeline := AwaitInfoFile zstdCompressionLevel\<rparr>)"

text \<open>The headers of the upload request: an object literal, so a later property of the same
  name replaces the value of an earlier one in its place.\<close>

definition upload_headers :: "(string \<times> string) list \<Rightarrow> string \<Rightarrow> (string \<times> string) list" where
  "upload_headers customHeaders zstdCompressionLevel =
     AList.update ''x-zstd-compression-level'' zstdCompressionLevel
       (fold (\<lambda>kv. AList.update (fst kv) (snd kv)) customHeaders
          [('':path'', ''/v1/upload''), ('':method'', ''POST''),
           (''content-type'', ''application/octet-stream'')])"

definition upload :: "config \<Rightarrow> (string \<times> string) list \<Rightarrow> state \<Rightarrow> state" where
  "upload cfg customHeaders s =
     (let zstdCompressionLevel = getZstdCompressionLevel (env_ZSTD_COMPRESSION cfg) (buildServiceEndpoint cfg);
          s1 = emit (Request (upload_headers customHeaders zstdCompressionLevel)) s;
          s2 = uploadUnpackedAppArchive cfg zstdCompressionLevel s1
      in s2\<lparr>upload_st := UpRequested\<rparr>)"

definition doBuild :: "config \<Rightarrow> (string \<times> string) list \<Rightarrow> state \<Rightarrow> state" where
  "doBuild cfg customHeaders s = upload cfg customHeaders s"

text \<open>\<^verbatim>\<open>build(customHeaders)\<close> up to its return: the listeners on the session, then
  \<^verbatim>\<open>doBuild\<close>.\<close>

definition build :: "config \<Rightarrow> (string \<times> string) list \<Rightarrow> state \<Rightarrow> state" where
  "build cfg customHeaders s =
     doBuild cfg customHeaders (s\<lparr>handled := False, close_armed := True, timeout_armed := True\<rparr>)"

text \<open>The callback of \<^verbatim>\<open>infoFile.value.then\<close>: both processes are spawned and piped.\<close>

definition spawn_pipeline :: "config \<Rightarrow> string \<Rightarrow> string \<Rightarrow> state \<Rightarrow> state" where
  "spawn_pipeline cfg zstdCompressionLevel infoFile s =
     (let s1 = emit (Log ''Compressing and uploading to remote build agent'') s;
          s2 = emit (Spawn (path7za cfg)
                 [''a'', ''dummy'', ''-ttar'', ''-so'', unpackedDirectory cfg, infoFile, buildResourcesDir cfg]) s1;
          s3 = emit (Spawn ''zstd'' [''-'' @ zstdCompressionLevel, ''--long'']) s2;
          s4 = emit PipeTarToZstd s3;
          s5 = emit PipeZstdToUpload s4
      in s5\<lparr>pipeline := Compressing\<rparr>)"

definition didnt_return_id :: string where
  "didnt_return_id = ''Server didn'' @ [CHR 0x27] @ ''t return id''"

text \<open>The \<^verbatim>\<open>end\<close> listener of the upload stream, for the status and the data received;
  the delay \<^verbatim>\<open>2 * 1000\<close> is written out.\<close>

definition upload_end :: "config \<Rightarrow> int \<Rightarrow> string \<Rightarrow> state \<Rightarrow> state" where
  "upload_end cfg status data s =
     (case (if data = [] then Some (JObject []) else JSON_parse cfg data) of
        None \<Rightarrow> throw SyntaxError s
      | Some result \<Rightarrow>
          (let s1 = debug cfg (''Remote builder result: '' @ JSON_stringify2 result) s
           in if status = HTTP_STATUS_BAD_REQUEST
              then reject (HttpError status (Some (JSON_stringify2 result))) s1
              else if result = JNull then throw TypeError s1
              else if \<not> not_nullish (get_prop result ''id'')
              then reject (Error didnt_return_id) s1
              else emit (SetTimeout 2000) (s1\<lparr>grace := TimerSet (the (get_prop result ''id''))\<rparr>)))"

text \<open>The \<^verbatim>\<open>response\<close> listener of the upload stream.\<close>

definition upload_response :: "int \<Rightarrow> state \<Rightarrow> state" where
  "upload_response status s =
     (if status \<noteq> HTTP_STATUS_OK \<and> status \<noteq> HTTP_STATUS_BAD_REQUEST
      then reject (HttpError status None) (s\<lparr>upload_st := UpClosed\<rparr>)
      else s\<lparr>upload_st := UpReceiving status []\<rparr>)"

subsection \<open>Download\<close>

text \<open>The object literal \<^verbatim>\<open>{...artifact, file, target, packager}\<close>: a property the entry has
  already keeps its place and takes the new value, a new one is added at the end.
  \<^verbatim>\<open>config[target]\<close> reads the property whose key is the target as a string.\<close>

definition artifactInfoToArtifactCreatedEvent :: "config \<Rightarrow> ArtifactInfo \<Rightarrow> string \<Rightarrow> ArtifactCreated" where
  "artifactInfoToArtifactCreatedEvent cfg artifact' localFile' =
     (let target = map_of artifact' ''target''
      in AList.update ''packager'' Packager
           (AList.update ''target''
              (if not_nullish target
               then Target \<lparr>name = the target, target_outDir = outDir cfg,
                            options = packager_config cfg (js_toString (the target))\<rparr>
               else Json JNull)
              (AList.update ''file'' (Json (JString localFile'))
                 (map (\<lambda>kv. (fst kv, Json (snd kv))) artifact'))))"

text \<open>The string a template literal puts in for the value of a property read, \<open>None\<close> being
  \<^verbatim>\<open>undefined\<close>.\<close>

fun template :: "json option \<Rightarrow> string" where
  "template None = ''undefined''"
| "template (Some v) = js_toString v"

definition download_path :: "config \<Rightarrow> json \<Rightarrow> json option \<Rightarrow> string option" where
  "download_path cfg id' file' =
     map_option (\<lambda>pathname. ''/v1/download'' @ pathname)
       (URL_pathname (URL_accepts_authority cfg) (js_toString id' @ ''/'' @ template file'))"

text \<open>
  \<^verbatim>\<open>downloadFile\<close> up to its return, for an entry of any kind. \<^verbatim>\<open>artifact.file\<close> throws on
  \<^verbatim>\<open>null\<close>; \<^verbatim>\<open>new URL\<close> throws a \<^verbatim>\<open>TypeError\<close> on an input it refuses, before the request is
  made; \<^verbatim>\<open>path.join\<close> throws a \<^verbatim>\<open>TypeError\<close> on an argument that is not a string, after the
  request has been made. Otherwise the closures over the entry, the local file and the
  event are the new entry of \<open>downloads\<close>.
\<close>

definition downloadFile :: "config \<Rightarrow> json \<Rightarrow> json \<Rightarrow> state \<Rightarrow> state" where
  "downloadFile cfg id' entry s =
     (if entry = JNull then throw TypeError s
      else
        (case download_path cfg id' (get_prop entry ''file'') of
           None \<Rightarrow> throw TypeError s
         | Some p \<Rightarrow>
             (let s1 = emit (Request [('':path'', p), ('':method'', ''GET'')]) s
              in case entry of
                   JObject artifact' \<Rightarrow>
                     (case map_of artifact' ''file'' of
                        Some (JString file') \<Rightarrow>
                          (let localFile' = path_join cfg (outDir cfg) file'
                           in s1\<lparr>downloads := downloads s1 @
                                   [\<lparr>artifact = artifact', localFile = localFile',
                                     artifactCreatedEvent =
                                       artifactInfoToArtifactCreatedEvent cfg artifact' localFile',
                                     buffers = [], phase = DlRequested\<rparr>]\<rparr>)
                      | _ \<Rightarrow> throw TypeError s1)
                 | _ \<Rightarrow> throw TypeError s1)))"

text \<open>UTF-16 code units of a string held as UTF-8: one for each code point, and one more
  for each code point of four bytes.\<close>

definition is_continuation :: "char \<Rightarrow> bool" where
  "is_continuation c = (0x80 \<le> (of_char c :: nat) \<and> (of_char c :: nat) < 0xC0)"

definition utf16_length :: "string \<Rightarrow> nat" where
  "utf16_length str =
     length (filter (\<lambda>c. \<not> is_continuation c) str) + length (filter (\<lambda>c. 0xF0 \<le> (of_char c :: nat)) str)"

text \<open>
  \<^verbatim>\<open>this.finishedStreamCount >= this.files.length\<close> for the value \<open>v\<close> of \<^verbatim>\<open>this.files\<close>, which
  is not \<^verbatim>\<open>null\<close>. A number and a boolean have no \<^verbatim>\<open>length\<close>, and no number is at least
  \<^verbatim>\<open>undefined\<close>. The loop over \<^verbatim>\<open>this.files\<close> has thrown on an object, so that no download
  finishes while \<^verbatim>\<open>this.files\<close> is one (\<open>files_iterable\<close> below), and its \<^verbatim>\<open>length\<close> is not
  modelled.
\<close>

fun reached_length :: "nat \<Rightarrow> json \<Rightarrow> bool" where
  "reached_length n (JArray xs) = (length xs \<le> n)"
| "reached_length n (JString str) = (utf16_length str \<le> n)"
| "reached_length n v = False"

text \<open>The closure \<^verbatim>\<open>fileWritten\<close> of the download with index \<open>k\<close>; its \<^verbatim>\<open>resolve\<close> is
  the one of \<^verbatim>\<open>listenEvents\<close>.\<close>

definition fileWritten :: "config \<Rightarrow> nat \<Rightarrow> state \<Rightarrow> state" where
  "fileWritten cfg k s =
     (let d = downloads s ! k;
          s1 = s\<lparr>finishedStreamCount := finishedStreamCount s + 1\<rparr>;
          s2 = emit (LogTimed (template (map_of (artifact d) ''file'') @ '' is downloaded in '')) s1;
          s3 = debug cfg (''Remote artifact saved to: '' @ localFile d) s2;
          s4 = emit (DispatchArtifactCreated (artifactCreatedEvent d)) s3
      in if not_nullish (files s4) \<and> reached_length (finishedStreamCount s4) (the (files s4))
         then listen_resolve None s4 else s4)"

definition set_download :: "nat \<Rightarrow> (download \<Rightarrow> download) \<Rightarrow> state \<Rightarrow> state" where
  "set_download k f s = s\<lparr>downloads := (downloads s)[k := f (downloads s ! k)]\<rparr>"

text \<open>The \<^verbatim>\<open>response\<close> listener of a download stream. \<^verbatim>\<open>endsWith\<close> is a method of strings
  only.\<close>

definition download_response :: "config \<Rightarrow> nat \<Rightarrow> int \<Rightarrow> state \<Rightarrow> state" where
  "download_response cfg k status s =
     (case checkStatus status listen_reject s of
        (False, s1) \<Rightarrow> set_download k (\<lambda>d. d\<lparr>phase := DlClosed\<rparr>) s1
      | (True, s1) \<Rightarrow>
          (let d = downloads s1 ! k in
           case map_of (artifact d) ''file'' of
             Some (JString file') \<Rightarrow>
               if endsWith file' ''.yml'' \<or> endsWith file' ''.json''
               then set_download k (\<lambda>d. d\<lparr>phase := DlBuffering\<rparr>) s1
               else set_download k (\<lambda>d. d\<lparr>phase := DlEnsuringDir\<rparr>)
                      (emit (EnsureDir (path_dirname cfg (localFile d))) s1)
           | _ \<Rightarrow> throw TypeError s1))"

text \<open>The \<^verbatim>\<open>end\<close> listener of a download that is buffered.\<close>

definition download_end :: "nat \<Rightarrow> state \<Rightarrow> state" where
  "download_end k s =
     (let d = downloads s ! k;
          fileContent = (if length (buffers d) = 1 then buffers d ! 0 else concat (buffers d));
          s1 = set_download k
                 (\<lambda>d. d\<lparr>artifactCreatedEvent :=
                           AList.update ''fileContent'' (Buffer fileContent) (artifactCreatedEvent d),
                        phase := DlWriting\<rparr>) s
      in emit (OutputFile (localFile d) fileContent) s1)"

text \<open>The callback of \<^verbatim>\<open>ensureDir(...).then\<close> of a download that is streamed; the
  \<^verbatim>\<open>highWaterMark\<close> \<^verbatim>\<open>1024 * 1024\<close> is written out.\<close>

definition open_file_stream :: "nat \<Rightarrow> state \<Rightarrow> state" where
  "open_file_stream k s =
     (let d = downloads s ! k;
          s1 = emit (CreateWriteStream (localFile d) 1048576) s;
          s2 = emit (PipeDownloadToFile k (localFile d)) s1
      in set_download k (\<lambda>d. d\<lparr>phase := DlPiping\<rparr>) s2)"

subsection \<open>Status events\<close>

text \<open>The code points of a string held as UTF-8, which a loop over the string visits.\<close>

function code_points :: "string \<Rightarrow> string list" where
  "code_points [] = []"
| "code_points (c # cs) = (c # takeWhile is_continuation cs) # code_points (dropWhile is_continuation cs)"
  by pat_completeness auto

termination code_points
  by (relation "measure length") (auto simp: le_imp_less_Suc length_dropWhile_le)

text \<open>What \<^verbatim>\<open>for (const artifact of v)\<close> visits: the elements of an array, the code points
  of a string; every other value is not iterable and the loop throws a \<^verbatim>\<open>TypeError\<close>.\<close>

fun iterate :: "json \<Rightarrow> json list option" where
  "iterate (JArray xs) = Some xs"
| "iterate (JString str) = Some (map JString (code_points str))"
| "iterate v = None"

text \<open>The body of the loop over \<^verbatim>\<open>this.files\<close>, entry by entry; an exception ends the loop.
  The message of the log reads \<^verbatim>\<open>artifact.file\<close>, which throws on \<^verbatim>\<open>null\<close>.\<close>

fun start_downloads :: "config \<Rightarrow> json \<Rightarrow> json list \<Rightarrow> state \<Rightarrow> state" where
  "start_downloads cfg id' [] s = s"
| "start_downloads cfg id' (entry # entries) s =
     (if entry = JNull then throw TypeError s
      else
        (let s1 = downloadFile cfg id' entry
                    (emit (Log (''Downloading '' @ template (get_prop entry ''file''))) s)
         in if halted s1 \<noteq> None then s1 else start_downloads cfg id' entries s1))"

text \<open>\<^verbatim>\<open>"files" in data\<close> for an object or an array; on a primitive it throws.\<close>

fun is_primitive :: "json \<Rightarrow> bool" where
  "is_primitive (JObject kvs) = False"
| "is_primitive (JArray xs) = False"
| "is_primitive v = True"

fun has_prop :: "json \<Rightarrow> string \<Rightarrow> bool" where
  "has_prop (JObject kvs) k = (k \<in> fst ` set kvs)"
| "has_prop v k = False"

text \<open>The callback given to \<^verbatim>\<open>JsonStreamParser\<close>, for one decoded event of the job with
  identifier \<open>id'\<close>. It has no test of its own on what has happened before: it runs for
  every event the parser decodes.\<close>

definition status_event :: "config \<Rightarrow> json \<Rightarrow> json \<Rightarrow> state \<Rightarrow> state" where
  "status_event cfg id' data s =
     (let s1 = debug cfg (''Remote builder event: '' @ JSON_stringify2 data) s
      in if data = JNull then throw TypeError s1
         else if not_nullish (get_prop data ''error'')
         then listen_resolve (Some data) (emit (StreamDestroy StatusStream) (s1\<lparr>status_st := StClosed\<rparr>))
         else if not_nullish (get_prop data ''state'')
         then (case the (get_prop data ''state'') of
                 JString st \<Rightarrow>
                   emit (Log (if st = ''added'' then ''Job added to build queue.''
                              else if st = ''started'' then ''Job started.''
                              else st)) s1
               | v \<Rightarrow> emit (LogValue v) s1)
         else if is_primitive data then throw TypeError s1
         else if \<not> has_prop data ''files''
         then emit (Warn (''Unknown builder event: '' @ JSON_stringify data)) s1
         else
           (let s2 = emit (StreamDestroy StatusStream) (s1\<lparr>status_st := StClosed\<rparr>);
                s3 = s2\<lparr>files := get_prop data ''files''\<rparr>
            in case iterate (the (get_prop data ''files'')) of
                 None \<Rightarrow> throw TypeError s3
               | Some entries \<Rightarrow> start_downloads cfg id' entries s3))"

text \<open>
  \<^verbatim>\<open>eventSource.parseIncoming(chunk)\<close> for a chunk in which the parser completes the events
  \<open>frames\<close>: the callback runs for each of them in turn, also after it has destroyed the
  stream; an exception ends the call.
\<close>

fun parseIncoming :: "config \<Rightarrow> json \<Rightarrow> json list \<Rightarrow> state \<Rightarrow> state" where
  "parseIncoming cfg id' [] s = s"
| "parseIncoming cfg id' (data # frames) s =
     (let s1 = status_event cfg id' data s
      in if halted s1 \<noteq> None then s1 else parseIncoming cfg id' frames s1)"

text \<open>\<^verbatim>\<open>listenEvents(id)\<close> up to its return.\<close>

definition listenEvents :: "json \<Rightarrow> state \<Rightarrow> state" where
  "listenEvents id' s =
     emit (Request [('':path'', ''/v1/status/'' @ js_toString id'), ('':method'', ''GET'')])
       (s\<lparr>listen := Pending, job_id := Some id', status_st := StRequested\<rparr>)"

text \<open>The \<^verbatim>\<open>response\<close> listener of the status stream.\<close>

definition status_response :: "int \<Rightarrow> state \<Rightarrow> state" where
  "status_response status s =
     (case checkStatus status listen_reject s of
        (False, s1) \<Rightarrow> s1\<lparr>status_st := StClosed\<rparr>
      | (True, s1) \<Rightarrow> s1\<lparr>status_st := StReceiving\<rparr>)"

section \<open>The session: events\<close>

text \<open>
  After \<^verbatim>\<open>build\<close> has returned, the code runs only in its listeners and promise callbacks.
  An event names the emitter and what it emits; downloads are numbered in the order
  \<^verbatim>\<open>downloadFile\<close> was called. \<open>Status_decoded frames\<close> is a \<^verbatim>\<open>data\<close> event of the status
  stream whose chunk completes the events \<open>frames\<close>. The two processes also exit, and the
  packer emits \<^verbatim>\<open>error\<close> when it cannot be spawned; the code has no listener for either exit.
\<close>

datatype event =
    Client_socketError js_error
  | Client_error js_error
  | Client_close
  | Client_timeout
  | Upload_error js_error
  | Upload_response int
  | Upload_data string
  | Upload_end
  | InfoFile_resolved string
  | InfoFile_rejected js_error
  | TarStdout_error js_error
  | Tar_error js_error
  | Tar_exit int
  | Zstd_error js_error
  | Zstd_exit int
  | ZstdStdout_end
  | Timer_fired
  | Status_error js_error
  | Status_response int
  | Status_decoded "json list"
  | Download_error nat js_error
  | Download_response nat int
  | Download_data nat bytes
  | Download_end nat
  | OutputFile_resolved nat
  | OutputFile_rejected nat js_error
  | EnsureDir_resolved nat
  | EnsureDir_rejected nat js_error
  | FileStream_error nat js_error
  | FileStream_close nat

definition phase_of :: "nat \<Rightarrow> state \<Rightarrow> download_phase option" where
  "phase_of k s = (if k < length (downloads s) then Some (phase (downloads s ! k)) else None)"

text \<open>
  The listener an event reaches, if one is registered. The guards say what the runtime
  guarantees: a \<^verbatim>\<open>once\<close> listener, a promise callback, the timer, and the \<^verbatim>\<open>response\<close>,
  \<^verbatim>\<open>end\<close> and \<^verbatim>\<open>close\<close> of a stream run at most once, a listener runs only after it has been
  registered, and a stream that the code has destroyed emits no further \<^verbatim>\<open>data\<close>. An
  \<^verbatim>\<open>error\<close> event with no listener is thrown by the emitter.
\<close>

fun dispatch :: "config \<Rightarrow> event \<Rightarrow> state \<Rightarrow> state" where
  "dispatch cfg (Client_socketError e) s = (if upload_st s = UpNone then s else reject e s)"
| "dispatch cfg (Client_error e) s = (if upload_st s = UpNone then s else reject e s)"
| "dispatch cfg Client_close s =
     (if close_armed s then
        (let s1 = s\<lparr>close_armed := False\<rparr>
         in if \<not> handled s1 then reject (Error ''Closed unexpectedly'') s1 else s1)
      else s)"
| "dispatch cfg Client_timeout s =
     (if timeout_armed s then reject (Error ''Timeout'') (s\<lparr>timeout_armed := False\<rparr>) else s)"
| "dispatch cfg (Upload_error e) s = (if upload_st s = UpNone then s else reject e s)"
| "dispatch cfg (Upload_response status) s =
     (if upload_st s = UpRequested then upload_response status s else s)"
| "dispatch cfg (Upload_data chunk) s =
     (case upload_st s of
        UpReceiving status data \<Rightarrow> s\<lparr>upload_st := UpReceiving status (data @ chunk)\<rparr>
      | _ \<Rightarrow> s)"
| "dispatch cfg Upload_end s =
     (case upload_st s of
        UpReceiving status data \<Rightarrow> upload_end cfg status data (s\<lparr>upload_st := UpClosed\<rparr>)
      | _ \<Rightarrow> s)"
| "dispatch cfg (InfoFile_resolved infoFile) s =
     (case pipeline s of
        AwaitInfoFile zstdCompressionLevel \<Rightarrow> spawn_pipeline cfg zstdCompressionLevel infoFile s
      | _ \<Rightarrow> s)"
| "dispatch cfg (InfoFile_rejected e) s =
     (case pipeline s of
        AwaitInfoFile zstdCompressionLevel \<Rightarrow> reject e (s\<lparr>pipeline := InfoFileFailed\<rparr>)
      | _ \<Rightarrow> s)"
| "dispatch cfg (TarStdout_error e) s = (if pipeline s = Compressing then reject e s else s)"
| "dispatch cfg (Tar_error e) s = (if pipeline s = Compressing then throw e s else s)"
| "dispatch cfg (Tar_exit code) s = s"
| "dispatch cfg (Zstd_error e) s = (if pipeline s = Compressing then reject e s else s)"
| "dispatch cfg (Zstd_exit code) s = s"
| "dispatch cfg ZstdStdout_end s =
     (if pipeline s = Compressing then emit (LogTimed ''Uploaded in '') s else s)"
| "dispatch cfg Timer_fired s =
     (case grace s of
        TimerSet id' \<Rightarrow> listenEvents id' (s\<lparr>grace := TimerFired\<rparr>)
      | _ \<Rightarrow> s)"
| "dispatch cfg (Status_error e) s = (if status_st s = StNone then s else listen_reject e s)"
| "dispatch cfg (Status_response status) s =
     (if status_st s = StRequested then status_response status s else s)"
| "dispatch cfg (Status_decoded frames) s =
     (if status_st s = StReceiving then parseIncoming cfg (the (job_id s)) frames s else s)"
| "dispatch cfg (Download_error k e) s = (if k < length (downloads s) then listen_reject e s else s)"
| "dispatch cfg (Download_response k status) s =
     (if phase_of k s = Some DlRequested then download_response cfg k status s else s)"
| "dispatch cfg (Download_data k chunk) s =
     (if phase_of k s = Some DlBuffering
      then set_download k (\<lambda>d. d\<lparr>buffers := buffers d @ [chunk]\<rparr>) s else s)"
| "dispatch cfg (Download_end k) s =
     (if phase_of k s = Some DlBuffering then download_end k s else s)"
| "dispatch cfg (OutputFile_resolved k) s =
     (if phase_of k s = Some DlWriting
      then fileWritten cfg k (set_download k (\<lambda>d. d\<lparr>phase := DlDone\<rparr>) s) else s)"
| "dispatch cfg (OutputFile_rejected k e) s =
     (if phase_of k s = Some DlWriting
      then listen_reject e (set_download k (\<lambda>d. d\<lparr>phase := DlClosed\<rparr>) s) else s)"
| "dispatch cfg (EnsureDir_resolved k) s =
     (if phase_of k s = Some DlEnsuringDir then open_file_stream k s else s)"
| "dispatch cfg (EnsureDir_rejected k e) s =
     (if phase_of k s = Some DlEnsuringDir
      then listen_reject e (set_download k (\<lambda>d. d\<lparr>phase := DlClosed\<rparr>) s) else s)"
| "dispatch cfg (FileStream_error k e) s =
     (if phase_of k s = Some DlPiping then listen_reject e s else s)"
| "dispatch cfg (FileStream_close k) s =
     (if phase_of k s = Some DlPiping
      then fileWritten cfg k (set_download k (\<lambda>d. d\<lparr>phase := DlDone\<rparr>) s) else s)"

text \<open>One event; after an exception has left a listener nothing more is run.\<close>

definition step :: "config \<Rightarrow> event \<Rightarrow> state \<Rightarrow> state" where
  "step cfg ev s = (if halted s = None then dispatch cfg ev s else s)"

fun run :: "config \<Rightarrow> event list \<Rightarrow> state \<Rightarrow> state" where
  "run cfg [] s = s"
| "run cfg (ev # evs) s = run cfg evs (step cfg ev s)"

text \<open>A job: the manager is constructed and \<^verbatim>\<open>build\<close> is called on it.\<close>

definition start :: "config \<Rightarrow> (string \<times> string) list \<Rightarrow> state" where
  "start cfg customHeaders = build cfg customHeaders (RemoteBuildManager cfg)"

section \<open>A runtime for the examples\<close>

text \<open>
  The examples need a \<^verbatim>\<open>JSON.parse\<close>. \<open>JSON_parse_fragment\<close> reads the JSON texts whose
  numbers are integers of at most fifteen digits, whose strings have no unicode escape and
  whose objects have neither a repeated key nor a key of digits; on these it builds the
  value the runtime builds. It answers \<open>None\<close> on every other text.
\<close>

definition is_json_ws :: "char \<Rightarrow> bool" where
  "is_json_ws c = (c \<in> set [CHR '' '', CHR 0x09, CHR 0x0A, CHR 0x0D])"

definition skip_ws :: "string \<Rightarrow> string" where
  "skip_ws s = dropWhile is_json_ws s"

definition is_digit :: "char \<Rightarrow> bool" where
  "is_digit c = (48 \<le> (of_char c :: nat) \<and> (of_char c :: nat) \<le> 57)"

definition unescape :: "char \<Rightarrow> char option" where
  "unescape c =
     (if c = CHR 0x22 then Some (CHR 0x22)
      else if c = CHR 0x5C then Some (CHR 0x5C)
      else if c = CHR ''/'' then Some (CHR ''/'')
      else if c = CHR ''b'' then Some (CHR 0x08)
      else if c = CHR ''f'' then Some (CHR 0x0C)
      else if c = CHR ''n'' then Some (CHR 0x0A)
      else if c = CHR ''r'' then Some (CHR 0x0D)
      else if c = CHR ''t'' then Some (CHR 0x09)
      else None)"

fun parse_string :: "string \<Rightarrow> (string \<times> string) option" where
  "parse_string [] = None"
| "parse_string (c # cs) =
     (if c = CHR 0x22 then Some ([], cs)
      else if c = CHR 0x5C then
        (case cs of
           [] \<Rightarrow> None
         | e # cs' \<Rightarrow>
             (case unescape e of
                None \<Rightarrow> None
              | Some u \<Rightarrow> map_option (\<lambda>r. (u # fst r, snd r)) (parse_string cs')))
      else if (of_char c :: nat) < 0x20 then None
      else map_option (\<lambda>r. (c # fst r, snd r)) (parse_string cs))"

definition parse_number :: "string \<Rightarrow> (json \<times> string) option" where
  "parse_number s =
     (let neg = (s \<noteq> [] \<and> hd s = CHR ''-'');
          s1 = (if neg then tl s else s);
          digits = takeWhile is_digit s1;
          rest = dropWhile is_digit s1
      in if digits = [] \<or> 15 < length digits \<or> (1 < length digits \<and> hd digits = CHR ''0'')
            \<or> (rest \<noteq> [] \<and> hd rest \<in> set [CHR ''.'', CHR ''e'', CHR ''E''])
         then None
         else Some (JNumber (if neg \<and> digits \<noteq> ''0'' then CHR ''-'' # digits else digits), rest))"

definition index_key :: "string \<Rightarrow> bool" where
  "index_key k = (k \<noteq> [] \<and> list_all is_digit k)"

fun parse_value :: "nat \<Rightarrow> string \<Rightarrow> (json \<times> string) option"
  and parse_elements :: "nat \<Rightarrow> string \<Rightarrow> (json list \<times> string) option"
  and parse_members :: "nat \<Rightarrow> string \<Rightarrow> ((string \<times> json) list \<times> string) option" where
  "parse_value 0 s = None"
| "parse_value (Suc n) s =
     (case s of
        [] \<Rightarrow> None
      | c # cs \<Rightarrow>
          (if c = CHR ''{'' then
             (case skip_ws cs of
                [] \<Rightarrow> None
              | d # ds \<Rightarrow> if d = CHR ''}'' then Some (JObject [], ds)
                          else map_option (\<lambda>r. (JObject (fst r), snd r)) (parse_members n (d # ds)))
           else if c = CHR ''['' then
             (case skip_ws cs of
                [] \<Rightarrow> None
              | d # ds \<Rightarrow> if d = CHR '']'' then Some (JArray [], ds)
                          else map_option (\<lambda>r. (JArray (fst r), snd r)) (parse_elements n (d # ds)))
           else if c = CHR 0x22 then map_option (\<lambda>r. (JString (fst r), snd r)) (parse_string cs)
           else if prefix ''true'' s then Some (JBool True, drop 4 s)
           else if prefix ''false'' s then Some (JBool False, drop 5 s)
           else if prefix ''null'' s then Some (JNull, drop 4 s)
           else parse_number s))"
| "parse_elements 0 s = None"
| "parse_elements (Suc n) s =
     (case parse_value n s of
        None \<Rightarrow> None
      | Some (v, r) \<Rightarrow>
          (case skip_ws r of
             [] \<Rightarrow> None
           | d # ds \<Rightarrow>
               if d = CHR '']'' then Some ([v], ds)
               else if d = CHR '','' then map_option (\<lambda>r. (v # fst r, snd r)) (parse_elements n (skip_ws ds))
               else None))"
| "parse_members 0 s = None"
| "parse_members (Suc n) s =
     (case s of
        [] \<Rightarrow> None
      | q # cs \<Rightarrow>
          if q \<noteq> CHR 0x22 then None
          else
            (case parse_string cs of
               None \<Rightarrow> None
             | Some (k, r) \<Rightarrow>
                 (case skip_ws r of
                    [] \<Rightarrow> None
                  | colon # r1 \<Rightarrow>
                      if colon \<noteq> CHR '':'' \<or> index_key k then None
                      else
                        (case parse_value n (skip_ws r1) of
                           None \<Rightarrow> None
                         | Some (v, r2) \<Rightarrow>
                             (case skip_ws r2 of
                                [] \<Rightarrow> None
                              | d # ds \<Rightarrow>
                                  if d = CHR ''}'' then Some ([(k, v)], ds)
                                  else if d = CHR '','' then
                                    (case parse_members n (skip_ws ds) of
                                       None \<Rightarrow> None
                                     | Some (kvs, r3) \<Rightarrow>
                                         if k \<in> fst ` set kvs then None else Some ((k, v) # kvs, r3))
                                  else None)))))"

definition JSON_parse_fragment :: "string \<Rightarrow> json option" where
  "JSON_parse_fragment s =
     (case parse_value (Suc (length s)) (skip_ws s) of
        None \<Rightarrow> None
      | Some (v, r) \<Rightarrow> if skip_ws r = [] then Some v else None)"


text \<open>
  The examples also need the test the URL parser makes on an authority. This one follows
  the URL Standard for an authority whose host is not in brackets: credentials end at the
  last \<^verbatim>\<open>@\<close> and need a host after them, a port is made of digits and is at most 65535 and
  needs a host before it, and the host has no forbidden host code point. It refuses every
  host in brackets, which the examples do not use.
\<close>

definition forbidden_host_code_point :: "char \<Rightarrow> bool" where
  "forbidden_host_code_point c =
     (c \<in> set [CHR 0x00, CHR 0x09, CHR 0x0A, CHR 0x0D, CHR '' '', CHR ''#'', CHR ''/'', CHR '':'',
                CHR ''<'', CHR ''>'', CHR ''?'', CHR ''@'', CHR ''['', CHR 0x5C, CHR '']'', CHR ''^'',
                CHR ''|''])"

definition decimal_value :: "string \<Rightarrow> int" where
  "decimal_value digits = fold (\<lambda>c n. 10 * n + (of_char c - 48)) digits 0"

definition example_accepts_authority :: "string \<Rightarrow> bool" where
  "example_accepts_authority authority =
     (let hostport = rev (takeWhile (\<lambda>c. c \<noteq> CHR ''@'') (rev authority));
          host = takeWhile (\<lambda>c. c \<noteq> CHR '':'') hostport;
          port = drop 1 (dropWhile (\<lambda>c. c \<noteq> CHR '':'') hostport)
      in \<not> (CHR ''@'' \<in> set authority \<and> hostport = [])
         \<and> \<not> (CHR '':'' \<in> set hostport \<and> host = [])
         \<and> list_all is_digit port \<and> decimal_value port \<le> 65535
         \<and> list_all (\<lambda>c. \<not> forbidden_host_code_point c) host)"

text \<open>A configuration for the examples: a remote endpoint, directories of a POSIX
  system, no environment variable set.\<close>

definition example_config :: config where
  "example_config =
     \<lparr>buildServiceEndpoint = ''https://build.example.org:443'',
      unpackedDirectory = ''/p/dist/linux-unpacked'',
      outDir = ''/p/dist'',
      projectDir = ''/p'',
      buildResourcesDir = ''/p/build'',
      packager_config = (\<lambda>t. None),
      path7za = ''7za'',
      env_CA_CERT = None,
      env_USE_LOCAL_CA = False,
      env_ZSTD_COMPRESSION = None,
      debug_enabled = False,
      JSON_parse = JSON_parse_fragment,
      path_join = (\<lambda>a b. a @ ''/'' @ b),
      path_dirname = (\<lambda>p. rev (drop 1 (dropWhile (\<lambda>c. c \<noteq> CHR ''/'') (rev p)))),
      URL_accepts_authority = example_accepts_authority\<rparr>"

text \<open>A job of two artifacts: the upload is accepted with the identifier \<^verbatim>\<open>j1\<close>, the status
  stream is answered, the manifest names a metadata file and a binary.\<close>

definition example_accepted :: "event list" where
  \<open>example_accepted =
     [InfoFile_resolved ''/p/dist/info.json'', Upload_response 200, Upload_data ''{"id":"j1"}'',
      Upload_end, ZstdStdout_end, Timer_fired, Status_response 200,
      Status_decoded [JObject [(''state'', JString ''added'')]]]\<close>

definition example_entries :: "json list" where
  "example_entries =
     [JObject [(''file'', JString ''latest.yml'')],
      JObject [(''file'', JString ''app.exe''), (''target'', JString ''nsis'')]]"

definition example_manifest :: json where
  "example_manifest = JObject [(''files'', JArray example_entries)]"

definition example_listed :: "event list" where
  "example_listed = example_accepted @ [Status_decoded [example_manifest]]"

definition example_downloading :: "event list" where
  "example_downloading =
     example_listed @
     [Download_response 0 200, Download_response 1 200,
      Download_data 0 ''version: '', Download_data 0 ''1.0.0'', EnsureDir_resolved 1,
      Download_end 0, FileStream_close 1]"

definition example_finished :: "event list" where
  "example_finished = example_downloading @ [OutputFile_resolved 0]"



text \<open>A manifest that names no artifact.\<close>

definition example_empty_manifest :: json where
  "example_empty_manifest = JObject [(''files'', JArray [])]"

text \<open>A status event that reports an error, a rejected upload with the diagnostic of the
  server, and a project whose build resources directory is the project directory.\<close>

definition example_error_event :: json where
  "example_error_event = JObject [(''error'', JString ''build failed'')]"

definition example_bad_request :: "event list" where
  \<open>example_bad_request =
     [InfoFile_resolved ''/p/dist/info.json'', Upload_response 400,
      Upload_data ''{"message":"bad config"}'']\<close>

text \<open>An upload that is answered with the status 400 and a body that is not JSON.\<close>

definition example_unparsable :: "event list" where
  "example_unparsable =
     [InfoFile_resolved ''/p/dist/info.json'', Upload_response 400, Upload_data ''Bad Request'',
      Upload_end]"

definition example_diagnostic :: string where
  \<open>example_diagnostic = ''{'' @ [CHR 0x0A] @ ''  "message": "bad config"'' @ [CHR 0x0A] @ ''}''\<close>

definition example_same_dir :: config where
  "example_same_dir = example_config\<lparr>buildResourcesDir := ''/p''\<rparr>"

section \<open>Observations\<close>

text \<open>How often the session has been destroyed, and how many downloads have run their
  completion callback.\<close>

definition session_destroys :: "state \<Rightarrow> nat" where
  "session_destroys s = length (filter (\<lambda>e. e = SessionDestroy) (effects s))"

definition completed :: "state \<Rightarrow> nat" where
  "completed s = length (filter (\<lambda>d. phase d = DlDone) (downloads s))"

text \<open>
  An event after which the callback destroys the status stream: one with an \<^verbatim>\<open>error\<close>, or a
  manifest. A chunk is well framed if such an event is the last one the parser completes
  in it, and a trace is if its chunks are: the server writes nothing after the event that
  ends the stream.
\<close>

definition terminal_frame :: "json \<Rightarrow> bool" where
  "terminal_frame data =
     (not_nullish (get_prop data ''error'')
      \<or> (\<not> not_nullish (get_prop data ''state'') \<and> has_prop data ''files''))"

fun well_framed :: "json list \<Rightarrow> bool" where
  "well_framed [] = True"
| "well_framed (data # frames) = (if terminal_frame data then frames = [] else well_framed frames)"

fun framed :: "event \<Rightarrow> bool" where
  "framed (Status_decoded frames) = well_framed frames"
| "framed ev = True"

text \<open>What holds of every state a job reaches.\<close>

definition settle_inv :: "state \<Rightarrow> bool" where
  "settle_inv s \<longleftrightarrow>
     session_destroys s = (if job s = Pending then 0 else 1)
     \<and> finishedStreamCount s = completed s
     \<and> (\<forall>r. job s = Fulfilled r \<longrightarrow> listen s = Fulfilled r \<and> handled s)
     \<and> (listen s \<noteq> Pending \<longrightarrow> job s \<noteq> Pending)
     \<and> (grace s \<noteq> TimerFired \<longrightarrow>
           status_st s = StNone \<and> listen s = Pending \<and> files s = None \<and> downloads s = [])
     \<and> (grace s \<noteq> NoTimer \<longrightarrow> upload_st s = UpClosed)
     \<and> (job s = Pending \<longrightarrow> close_armed s \<and> timeout_armed s \<and> \<not> handled s)
     \<and> upload_st s \<noteq> UpNone"

text \<open>The number of downloads a value of \<^verbatim>\<open>this.files\<close> can start: an entry of an array
  can, a code point of a string cannot.\<close>

fun capacity :: "json \<Rightarrow> nat" where
  "capacity (JArray xs) = length xs"
| "capacity v = 0"

text \<open>What holds of every state a job reaches by a trace that is well framed.\<close>

definition session_inv :: "state \<Rightarrow> bool" where
  "session_inv s \<longleftrightarrow>
     settle_inv s
     \<and> (case files s of
           None \<Rightarrow> downloads s = []
         | Some v \<Rightarrow> status_st s = StClosed \<and> length (downloads s) \<le> capacity v)
     \<and> (listen s = Fulfilled None \<longrightarrow>
           downloads s \<noteq> [] \<and> files s \<noteq> None
           \<and> reached_length (finishedStreamCount s) (the (files s)))
     \<and> (\<forall>d. listen s = Fulfilled (Some d) \<longrightarrow> files s = None \<and> status_st s = StClosed)"

text \<open>The events that report a failure: \<^verbatim>\<open>error\<close>, \<^verbatim>\<open>socketError\<close>, \<^verbatim>\<open>close\<close> and \<^verbatim>\<open>timeout\<close>
  of the session, \<^verbatim>\<open>error\<close> of the upload and the status stream, and the failures of the
  upload pipeline, whose callbacks stay registered.\<close>

fun failure_event :: "event \<Rightarrow> bool" where
  "failure_event (Client_socketError e) = True"
| "failure_event (Client_error e) = True"
| "failure_event Client_close = True"
| "failure_event Client_timeout = True"
| "failure_event (Upload_error e) = True"
| "failure_event (Status_error e) = True"
| "failure_event (InfoFile_rejected e) = True"
| "failure_event (TarStdout_error e) = True"
| "failure_event (Zstd_error e) = True"
| "failure_event ev = False"

text \<open>The effects that build the archive and send it: the two processes and their pipes.\<close>

fun archive_effect :: "effect \<Rightarrow> bool" where
  "archive_effect (Spawn command arguments) = True"
| "archive_effect PipeTarToZstd = True"
| "archive_effect PipeZstdToUpload = True"
| "archive_effect e = False"

definition archive_effects :: "state \<Rightarrow> effect list" where
  "archive_effects s = filter archive_effect (effects s)"

text \<open>The events given to \<^verbatim>\<open>dispatchArtifactCreated\<close>, in order.\<close>

fun dispatched_event :: "effect \<Rightarrow> ArtifactCreated list" where
  "dispatched_event (DispatchArtifactCreated created) = [created]"
| "dispatched_event e = []"

definition dispatched :: "state \<Rightarrow> ArtifactCreated list" where
  "dispatched s = concat (map dispatched_event (effects s))"


text \<open>A download whose response has not arrived is as \<^verbatim>\<open>downloadFile\<close> left it: nothing is
  buffered, the entry has a \<^verbatim>\<open>file\<close> that is a string, the local file is in the output
  directory, and the event is the one made from the entry.\<close>

definition launched :: "config \<Rightarrow> download \<Rightarrow> bool" where
  "launched cfg d \<longleftrightarrow>
     buffers d = []
     \<and> (\<exists>file'. map_of (artifact d) ''file'' = Some (JString file')
            \<and> localFile d = path_join cfg (outDir cfg) file')
     \<and> artifactCreatedEvent d = artifactInfoToArtifactCreatedEvent cfg (artifact d) (localFile d)"

definition launch_inv :: "config \<Rightarrow> state \<Rightarrow> bool" where
  "launch_inv cfg s \<longleftrightarrow> (\<forall>d \<in> set (downloads s). phase d = DlRequested \<longrightarrow> launched cfg d)"

section \<open>Lemmas about the session\<close>

subsection \<open>What each operation changes\<close>

lemma emit_same [simp]:
  "job (emit e s) = job s"
  "handled (emit e s) = handled s"
  "close_armed (emit e s) = close_armed s"
  "timeout_armed (emit e s) = timeout_armed s"
  "upload_st (emit e s) = upload_st s"
  "pipeline (emit e s) = pipeline s"
  "grace (emit e s) = grace s"
  "listen (emit e s) = listen s"
  "job_id (emit e s) = job_id s"
  "status_st (emit e s) = status_st s"
  "files (emit e s) = files s"
  "finishedStreamCount (emit e s) = finishedStreamCount s"
  "downloads (emit e s) = downloads s"
  "halted (emit e s) = halted s"
  by (simp_all add: emit_def)

lemma emit_effects [simp]: "effects (emit e s) = effects s @ [e]"
  by (simp add: emit_def)

lemma debug_same [simp]:
  "job (debug cfg m s) = job s"
  "handled (debug cfg m s) = handled s"
  "close_armed (debug cfg m s) = close_armed s"
  "timeout_armed (debug cfg m s) = timeout_armed s"
  "upload_st (debug cfg m s) = upload_st s"
  "pipeline (debug cfg m s) = pipeline s"
  "grace (debug cfg m s) = grace s"
  "listen (debug cfg m s) = listen s"
  "job_id (debug cfg m s) = job_id s"
  "status_st (debug cfg m s) = status_st s"
  "files (debug cfg m s) = files s"
  "finishedStreamCount (debug cfg m s) = finishedStreamCount s"
  "downloads (debug cfg m s) = downloads s"
  "halted (debug cfg m s) = halted s"
  by (simp_all add: debug_def)


lemma throw_same [simp]:
  "job (throw x s) = job s"
  "handled (throw x s) = handled s"
  "close_armed (throw x s) = close_armed s"
  "timeout_armed (throw x s) = timeout_armed s"
  "upload_st (throw x s) = upload_st s"
  "pipeline (throw x s) = pipeline s"
  "grace (throw x s) = grace s"
  "listen (throw x s) = listen s"
  "job_id (throw x s) = job_id s"
  "status_st (throw x s) = status_st s"
  "files (throw x s) = files s"
  "finishedStreamCount (throw x s) = finishedStreamCount s"
  "downloads (throw x s) = downloads s"
  "effects (throw x s) = effects s"
  by (simp_all add: throw_def)

lemma throw_halted [simp]: "halted (throw x s) = Some x"
  by (simp add: throw_def)

lemma reject_same [simp]:
  "handled (reject e s) = handled s"
  "close_armed (reject e s) = close_armed s"
  "timeout_armed (reject e s) = timeout_armed s"
  "upload_st (reject e s) = upload_st s"
  "pipeline (reject e s) = pipeline s"
  "grace (reject e s) = grace s"
  "listen (reject e s) = listen s"
  "job_id (reject e s) = job_id s"
  "status_st (reject e s) = status_st s"
  "files (reject e s) = files s"
  "finishedStreamCount (reject e s) = finishedStreamCount s"
  "downloads (reject e s) = downloads s"
  "halted (reject e s) = halted s"
  by (simp_all add: reject_def)

lemma reject_job: "job (reject e s) = (if job s = Pending then Rejected e else job s)"
  by (simp add: reject_def)

lemma reject_effects: "effects (reject e s) = (if job s = Pending then effects s @ [SessionDestroy] else effects s)"
  by (simp add: reject_def)

lemma build_resolve_same [simp]:
  "close_armed (build_resolve r s) = close_armed s"
  "timeout_armed (build_resolve r s) = timeout_armed s"
  "upload_st (build_resolve r s) = upload_st s"
  "pipeline (build_resolve r s) = pipeline s"
  "grace (build_resolve r s) = grace s"
  "listen (build_resolve r s) = listen s"
  "job_id (build_resolve r s) = job_id s"
  "status_st (build_resolve r s) = status_st s"
  "files (build_resolve r s) = files s"
  "finishedStreamCount (build_resolve r s) = finishedStreamCount s"
  "downloads (build_resolve r s) = downloads s"
  "halted (build_resolve r s) = halted s"
  by (simp_all add: build_resolve_def Let_def)

lemma build_resolve_job: "job (build_resolve r s) = (if job s = Pending then Fulfilled r else job s)"
  by (simp add: build_resolve_def Let_def)


lemma build_resolve_handled [simp]: "handled (build_resolve r s) = True"
  by (simp add: build_resolve_def Let_def)

lemma listen_resolve_same [simp]:
  "close_armed (listen_resolve r s) = close_armed s"
  "timeout_armed (listen_resolve r s) = timeout_armed s"
  "upload_st (listen_resolve r s) = upload_st s"
  "pipeline (listen_resolve r s) = pipeline s"
  "grace (listen_resolve r s) = grace s"
  "job_id (listen_resolve r s) = job_id s"
  "status_st (listen_resolve r s) = status_st s"
  "files (listen_resolve r s) = files s"
  "finishedStreamCount (listen_resolve r s) = finishedStreamCount s"
  "downloads (listen_resolve r s) = downloads s"
  "halted (listen_resolve r s) = halted s"
  by (simp_all add: listen_resolve_def)

lemma listen_resolve_listen: "listen (listen_resolve r s) = (if listen s = Pending then Fulfilled r else listen s)"
  by (simp add: listen_resolve_def)

lemma listen_resolve_job: "job (listen_resolve r s) = (if listen s = Pending \<and> job s = Pending then Fulfilled r else job s)"
  by (simp add: listen_resolve_def build_resolve_job)


lemma listen_resolve_handled: "handled (listen_resolve r s) = (if listen s = Pending then True else handled s)"
  by (simp add: listen_resolve_def)

lemma listen_reject_same [simp]:
  "handled (listen_reject e s) = handled s"
  "close_armed (listen_reject e s) = close_armed s"
  "timeout_armed (listen_reject e s) = timeout_armed s"
  "upload_st (listen_reject e s) = upload_st s"
  "pipeline (listen_reject e s) = pipeline s"
  "grace (listen_reject e s) = grace s"
  "job_id (listen_reject e s) = job_id s"
  "status_st (listen_reject e s) = status_st s"
  "files (listen_reject e s) = files s"
  "finishedStreamCount (listen_reject e s) = finishedStreamCount s"
  "downloads (listen_reject e s) = downloads s"
  "halted (listen_reject e s) = halted s"
  by (simp_all add: listen_reject_def)

lemma listen_reject_listen: "listen (listen_reject e s) = (if listen s = Pending then Rejected e else listen s)"
  by (simp add: listen_reject_def)

lemma listen_reject_job: "job (listen_reject e s) = (if listen s = Pending \<and> job s = Pending then Rejected e else job s)"
  by (simp add: listen_reject_def reject_job)

lemma listen_reject_effects: "effects (listen_reject e s) = (if listen s = Pending \<and> job s = Pending then effects s @ [SessionDestroy] else effects s)"
  by (simp add: listen_reject_def reject_effects)

lemma set_download_same [simp]:
  "job (set_download k f s) = job s"
  "handled (set_download k f s) = handled s"
  "close_armed (set_download k f s) = close_armed s"
  "timeout_armed (set_download k f s) = timeout_armed s"
  "upload_st (set_download k f s) = upload_st s"
  "pipeline (set_download k f s) = pipeline s"
  "grace (set_download k f s) = grace s"
  "listen (set_download k f s) = listen s"
  "job_id (set_download k f s) = job_id s"
  "status_st (set_download k f s) = status_st s"
  "files (set_download k f s) = files s"
  "finishedStreamCount (set_download k f s) = finishedStreamCount s"
  "effects (set_download k f s) = effects s"
  "halted (set_download k f s) = halted s"
  by (simp_all add: set_download_def)

lemma set_download_downloads [simp]: "downloads (set_download k f s) = (downloads s)[k := f (downloads s ! k)]"
  by (simp add: set_download_def)

subsection \<open>The invariant of every job\<close>

lemma count_update:
  "k < length xs \<Longrightarrow>
     length (filter P (xs[k := x])) + (if P (xs ! k) then 1 else 0)
       = length (filter P xs) + (if P x then 1 else 0)"
proof (induction xs arbitrary: k)
  case Nil
  then show ?case by simp
next
  case (Cons a xs)
  then show ?case by (cases k) auto
qed

lemma completed_done:
  assumes "k < length (downloads s)" "phase (downloads s ! k) \<noteq> DlDone"
  shows "completed (set_download k (\<lambda>d. d\<lparr>phase := DlDone\<rparr>) s) = completed s + 1"
  using count_update [OF assms(1), of "\<lambda>d. phase d = DlDone" "(downloads s ! k)\<lparr>phase := DlDone\<rparr>"] assms(2)
  by (simp add: completed_def)

lemma completed_other:
  assumes "k < length (downloads s)" "phase (downloads s ! k) \<noteq> DlDone" "phase (f (downloads s ! k)) \<noteq> DlDone"
  shows "completed (set_download k f s) = completed s"
  using count_update [OF assms(1), of "\<lambda>d. phase d = DlDone" "f (downloads s ! k)"] assms(2,3)
  by (simp add: completed_def)

lemma completed_emit [simp]: "completed (emit e s) = completed s"
  by (simp add: completed_def)

lemma session_destroys_emit [simp]:
  "session_destroys (emit e s) = session_destroys s + (if e = SessionDestroy then 1 else 0)"
  by (simp add: session_destroys_def)

lemma session_destroys_upd [simp]:
  "session_destroys (s\<lparr>job := a\<rparr>) = session_destroys s"
  "session_destroys (s\<lparr>handled := b\<rparr>) = session_destroys s"
  "session_destroys (s\<lparr>close_armed := b\<rparr>) = session_destroys s"
  "session_destroys (s\<lparr>timeout_armed := b\<rparr>) = session_destroys s"
  "session_destroys (s\<lparr>upload_st := c\<rparr>) = session_destroys s"
  "session_destroys (s\<lparr>pipeline := d\<rparr>) = session_destroys s"
  "session_destroys (s\<lparr>grace := e\<rparr>) = session_destroys s"
  "session_destroys (s\<lparr>listen := f\<rparr>) = session_destroys s"
  "session_destroys (s\<lparr>job_id := g\<rparr>) = session_destroys s"
  "session_destroys (s\<lparr>status_st := h\<rparr>) = session_destroys s"
  "session_destroys (s\<lparr>files := i\<rparr>) = session_destroys s"
  "session_destroys (s\<lparr>finishedStreamCount := j\<rparr>) = session_destroys s"
  "session_destroys (s\<lparr>downloads := k\<rparr>) = session_destroys s"
  "session_destroys (s\<lparr>halted := l\<rparr>) = session_destroys s"
  by (simp_all add: session_destroys_def)

lemma completed_upd [simp]:
  "completed (s\<lparr>job := a\<rparr>) = completed s"
  "completed (s\<lparr>handled := b\<rparr>) = completed s"
  "completed (s\<lparr>close_armed := b\<rparr>) = completed s"
  "completed (s\<lparr>timeout_armed := b\<rparr>) = completed s"
  "completed (s\<lparr>upload_st := c\<rparr>) = completed s"
  "completed (s\<lparr>pipeline := d\<rparr>) = completed s"
  "completed (s\<lparr>grace := e\<rparr>) = completed s"
  "completed (s\<lparr>listen := f\<rparr>) = completed s"
  "completed (s\<lparr>job_id := g\<rparr>) = completed s"
  "completed (s\<lparr>status_st := h\<rparr>) = completed s"
  "completed (s\<lparr>files := i\<rparr>) = completed s"
  "completed (s\<lparr>finishedStreamCount := j\<rparr>) = completed s"
  "completed (s\<lparr>effects := k\<rparr>) = completed s"
  "completed (s\<lparr>halted := l\<rparr>) = completed s"
  by (simp_all add: completed_def)

lemma session_destroys_ops [simp]:
  "session_destroys (debug cfg m s) = session_destroys s"
  "session_destroys (throw x s) = session_destroys s"
  "session_destroys (set_download k f s) = session_destroys s"
  "session_destroys (reject e s) = session_destroys s + (if job s = Pending then 1 else 0)"
  "session_destroys (build_resolve r s) = session_destroys s + (if job s = Pending then 1 else 0)"
  "session_destroys (listen_resolve r s)
     = session_destroys s + (if listen s = Pending \<and> job s = Pending then 1 else 0)"
  "session_destroys (listen_reject e s)
     = session_destroys s + (if listen s = Pending \<and> job s = Pending then 1 else 0)"
  by (simp_all add: debug_def throw_def set_download_def reject_def build_resolve_def
        listen_resolve_def listen_reject_def Let_def)

lemma completed_ops [simp]:
  "completed (debug cfg m s) = completed s"
  "completed (throw x s) = completed s"
  "completed (reject e s) = completed s"
  "completed (build_resolve r s) = completed s"
  "completed (listen_resolve r s) = completed s"
  "completed (listen_reject e s) = completed s"
  by (simp_all add: completed_def)

lemmas settle_simps =
  reject_job build_resolve_job listen_resolve_job listen_resolve_listen listen_resolve_handled
  listen_reject_job listen_reject_listen

lemma phase_ofD:
  "phase_of k s = Some p \<Longrightarrow> k < length (downloads s) \<and> phase (downloads s ! k) = p"
  by (simp add: phase_of_def split: if_splits)

lemma downloadFile_same [simp]:
  "job (downloadFile cfg i a s) = job s"
  "handled (downloadFile cfg i a s) = handled s"
  "close_armed (downloadFile cfg i a s) = close_armed s"
  "timeout_armed (downloadFile cfg i a s) = timeout_armed s"
  "upload_st (downloadFile cfg i a s) = upload_st s"
  "pipeline (downloadFile cfg i a s) = pipeline s"
  "grace (downloadFile cfg i a s) = grace s"
  "listen (downloadFile cfg i a s) = listen s"
  "job_id (downloadFile cfg i a s) = job_id s"
  "status_st (downloadFile cfg i a s) = status_st s"
  "files (downloadFile cfg i a s) = files s"
  "finishedStreamCount (downloadFile cfg i a s) = finishedStreamCount s"
  "session_destroys (downloadFile cfg i a s) = session_destroys s"
  "completed (downloadFile cfg i a s) = completed s"
  by (simp_all add: downloadFile_def Let_def completed_def split: option.splits json.splits)

lemma start_downloads_same [simp]:
  "job (start_downloads cfg i as s) = job s"
  "handled (start_downloads cfg i as s) = handled s"
  "close_armed (start_downloads cfg i as s) = close_armed s"
  "timeout_armed (start_downloads cfg i as s) = timeout_armed s"
  "upload_st (start_downloads cfg i as s) = upload_st s"
  "pipeline (start_downloads cfg i as s) = pipeline s"
  "grace (start_downloads cfg i as s) = grace s"
  "listen (start_downloads cfg i as s) = listen s"
  "job_id (start_downloads cfg i as s) = job_id s"
  "status_st (start_downloads cfg i as s) = status_st s"
  "files (start_downloads cfg i as s) = files s"
  "finishedStreamCount (start_downloads cfg i as s) = finishedStreamCount s"
  "session_destroys (start_downloads cfg i as s) = session_destroys s"
  "completed (start_downloads cfg i as s) = completed s"
  by (induction as arbitrary: s; simp add: Let_def)+

lemma settle_emit:
  "settle_inv s \<Longrightarrow> e \<noteq> SessionDestroy \<Longrightarrow> settle_inv (emit e s)"
  by (simp add: settle_inv_def)

lemma settle_debug:
  "settle_inv s \<Longrightarrow> settle_inv (debug cfg m s)"
  by (simp add: debug_def settle_emit)

lemma settle_throw:
  "settle_inv s \<Longrightarrow> settle_inv (throw x s)"
  by (simp add: settle_inv_def)

lemma settle_set_download:
  assumes "settle_inv s" "k < length (downloads s)" "phase (downloads s ! k) \<noteq> DlDone"
    "phase (f (downloads s ! k)) \<noteq> DlDone"
  shows "settle_inv (set_download k f s)"
  using assms completed_other [of k s f]
  by (auto simp: settle_inv_def)

lemma settle_reject:
  "settle_inv s \<Longrightarrow> settle_inv (reject e s)"
  by (auto simp: settle_inv_def settle_simps)

lemma settle_listen_reject:
  "settle_inv s \<Longrightarrow> grace s = TimerFired \<Longrightarrow> settle_inv (listen_reject e s)"
  by (auto simp: settle_inv_def settle_simps)

lemma settle_listen_resolve:
  "settle_inv s \<Longrightarrow> grace s = TimerFired \<Longrightarrow> settle_inv (listen_resolve r s)"
  by (auto simp: settle_inv_def settle_simps)

lemma settle_fired:
  "settle_inv s \<Longrightarrow> k < length (downloads s) \<Longrightarrow> grace s = TimerFired"
  "settle_inv s \<Longrightarrow> status_st s \<noteq> StNone \<Longrightarrow> grace s = TimerFired"
  by (auto simp: settle_inv_def)

lemma settle_fileWritten:
  assumes "settle_inv s" "k < length (downloads s)" "phase (downloads s ! k) \<noteq> DlDone"
  shows "settle_inv (fileWritten cfg k (set_download k (\<lambda>d. d\<lparr>phase := DlDone\<rparr>) s))"
  using assms completed_done [OF assms(2,3)]
  by (auto simp: settle_inv_def settle_simps Let_def fileWritten_def)

lemma settle_downloadFile:
  "settle_inv s \<Longrightarrow> grace s = TimerFired \<Longrightarrow> settle_inv (downloadFile cfg i a s)"
  by (simp add: settle_inv_def)

lemma settle_start_downloads:
  "settle_inv s \<Longrightarrow> grace s = TimerFired \<Longrightarrow> settle_inv (start_downloads cfg i as s)"
  by (simp add: settle_inv_def)

lemma status_event_grace [simp]:
  "grace (status_event cfg i data s) = grace s"
  by (simp add: status_event_def Let_def split: option.split json.split)

lemma settle_status_event:
  assumes "settle_inv s" "grace s = TimerFired"
  shows "settle_inv (status_event cfg i data s)"
proof -
  have i1: "settle_inv (debug cfg m s)" and g1: "grace (debug cfg m s) = TimerFired" for m
    using assms by (simp_all add: settle_debug)
  have c: "settle_inv (emit (StreamDestroy StatusStream) (debug cfg m s\<lparr>status_st := StClosed\<rparr>))" for m
    using i1 [of m] g1 [of m] by (simp add: settle_inv_def)
  have b1: "settle_inv (throw x (debug cfg m s))" for x m
    by (rule settle_throw [OF i1])
  have b2: "settle_inv (listen_resolve (Some d)
              (emit (StreamDestroy StatusStream) (debug cfg m s\<lparr>status_st := StClosed\<rparr>)))" for d m
    by (rule settle_listen_resolve [OF c]) (simp add: assms(2))
  have b3: "settle_inv (emit (Log l) (debug cfg m s))"
    "settle_inv (emit (LogValue v) (debug cfg m s))"
    "settle_inv (emit (Warn l) (debug cfg m s))" for l v m
    by (simp_all add: settle_emit [OF i1])
  have f: "settle_inv ((emit (StreamDestroy StatusStream) (debug cfg m s\<lparr>status_st := StClosed\<rparr>))\<lparr>files := v\<rparr>)" for m v
    using c [of m] g1 [of m] by (simp add: settle_inv_def)
  have b4: "settle_inv (throw x
              ((emit (StreamDestroy StatusStream) (debug cfg m s\<lparr>status_st := StClosed\<rparr>))\<lparr>files := v\<rparr>))" for x m v
    by (rule settle_throw [OF f])
  have b5: "settle_inv (start_downloads cfg i es
              ((emit (StreamDestroy StatusStream) (debug cfg m s\<lparr>status_st := StClosed\<rparr>))\<lparr>files := v\<rparr>))" for es m v
    by (rule settle_start_downloads [OF f]) (simp add: assms(2))
  show ?thesis
    unfolding status_event_def Let_def
    by (simp add: b1 b2 b3 b4 b5 split: option.split json.split)
qed

lemma parseIncoming_grace [simp]:
  "grace (parseIncoming cfg i frames s) = grace s"
  by (induction frames arbitrary: s) (simp_all add: Let_def)

lemma settle_parseIncoming:
  "settle_inv s \<Longrightarrow> grace s = TimerFired \<Longrightarrow> settle_inv (parseIncoming cfg i frames s)"
  by (induction frames arbitrary: s) (simp_all add: Let_def settle_status_event)

lemma settle_client:
  assumes "settle_inv s"
  shows "settle_inv (dispatch cfg (Client_socketError e) s)"
    "settle_inv (dispatch cfg (Client_error e) s)"
    "settle_inv (dispatch cfg Client_close s)"
    "settle_inv (dispatch cfg Client_timeout s)"
    "settle_inv (dispatch cfg (Upload_error e) s)"
  using assms
  by (auto simp: settle_inv_def settle_simps Let_def)

lemma settle_upload:
  assumes "settle_inv s"
  shows "settle_inv (dispatch cfg (Upload_response status) s)"
    "settle_inv (dispatch cfg (Upload_data chunk) s)"
    "settle_inv (dispatch cfg Upload_end s)"
  using assms
  by (auto simp: settle_inv_def settle_simps Let_def upload_response_def upload_end_def
      split: option.splits upload_phase.splits)

lemma settle_pipeline:
  assumes "settle_inv s"
  shows "settle_inv (dispatch cfg (InfoFile_resolved p) s)"
    "settle_inv (dispatch cfg (InfoFile_rejected e) s)"
    "settle_inv (dispatch cfg (TarStdout_error e) s)"
    "settle_inv (dispatch cfg (Tar_error e) s)"
    "settle_inv (dispatch cfg (Tar_exit c) s)"
    "settle_inv (dispatch cfg (Zstd_error e) s)"
    "settle_inv (dispatch cfg (Zstd_exit c) s)"
    "settle_inv (dispatch cfg ZstdStdout_end s)"
  using assms
  by (auto simp: settle_inv_def settle_simps Let_def spawn_pipeline_def
      split: pipeline_phase.splits)

lemma settle_status:
  assumes "settle_inv s"
  shows "settle_inv (dispatch cfg Timer_fired s)"
    "settle_inv (dispatch cfg (Status_error e) s)"
    "settle_inv (dispatch cfg (Status_response status) s)"
    "settle_inv (dispatch cfg (Status_decoded frames) s)"
  using assms
  by (auto simp: settle_inv_def [of s] settle_simps Let_def listenEvents_def status_response_def
      checkStatus_def settle_inv_def [of "_\<lparr>status_st := _\<rparr>"] settle_inv_def [of "emit _ _"]
      intro!: settle_parseIncoming settle_listen_reject
      split: timer_phase.splits)

lemma settle_download:
  assumes "settle_inv s"
  shows "settle_inv (dispatch cfg (Download_error k e) s)"
    "settle_inv (dispatch cfg (Download_data k chunk) s)"
    "settle_inv (dispatch cfg (Download_end k) s)"
    "settle_inv (dispatch cfg (OutputFile_resolved k) s)"
    "settle_inv (dispatch cfg (OutputFile_rejected k e) s)"
    "settle_inv (dispatch cfg (EnsureDir_resolved k) s)"
    "settle_inv (dispatch cfg (EnsureDir_rejected k e) s)"
    "settle_inv (dispatch cfg (FileStream_error k e) s)"
    "settle_inv (dispatch cfg (FileStream_close k) s)"
  using assms
  by (auto simp: Let_def download_end_def open_file_stream_def
      intro!: settle_fileWritten settle_set_download settle_emit settle_listen_reject
      dest!: phase_ofD dest: settle_fired(1))

lemma settle_download_response:
  assumes "settle_inv s"
  shows "settle_inv (dispatch cfg (Download_response k status) s)"
  using assms
  by (auto simp: Let_def download_response_def checkStatus_def
      intro!: settle_set_download settle_emit settle_listen_reject settle_throw
      dest!: phase_ofD dest: settle_fired(1) split: option.splits json.splits)

lemma settle_dispatch:
  assumes "settle_inv s"
  shows "settle_inv (dispatch cfg ev s)"
  by (cases ev)
    (simp_all only: settle_client [OF assms] settle_upload [OF assms] settle_pipeline [OF assms]
      settle_status [OF assms] settle_download [OF assms] settle_download_response [OF assms])



lemma settle_start:
  "settle_inv (start cfg customHeaders)"
  by (simp add: start_def build_def doBuild_def upload_def uploadUnpackedAppArchive_def
      RemoteBuildManager_def Let_def settle_inv_def settle_simps debug_def
      session_destroys_def completed_def emit_def reject_def)


subsection \<open>The invariant of the well-framed traces\<close>

lemma inv_settle:
  "session_inv s \<Longrightarrow> settle_inv s"
  by (simp add: session_inv_def)

lemma inv_cong:
  assumes "session_inv s"
    and "settle_inv s'"
    and "files s' = files s" "downloads s' = downloads s" "listen s' = listen s"
    and "status_st s' = status_st s" "finishedStreamCount s' = finishedStreamCount s"
  shows "session_inv s'"
  using assms by (auto simp: session_inv_def split: option.splits)

lemma inv_emit:
  assumes "session_inv s" "e \<noteq> SessionDestroy"
  shows "session_inv (emit e s)"
  by (rule inv_cong [OF assms(1)]) (simp_all add: settle_emit inv_settle assms)

lemma inv_debug:
  "session_inv s \<Longrightarrow> session_inv (debug cfg m s)"
  by (simp add: debug_def inv_emit)

lemma inv_throw:
  assumes "session_inv s"
  shows "session_inv (throw x s)"
  by (rule inv_cong [OF assms]) (simp_all add: settle_throw inv_settle [OF assms])

lemma inv_frame:
  assumes "session_inv s"
    and "files (dispatch cfg ev s) = files s" "downloads (dispatch cfg ev s) = downloads s"
    and "listen (dispatch cfg ev s) = listen s" "status_st (dispatch cfg ev s) = status_st s"
    and "finishedStreamCount (dispatch cfg ev s) = finishedStreamCount s"
  shows "session_inv (dispatch cfg ev s)"
  by (rule inv_cong [OF assms(1) settle_dispatch [OF inv_settle [OF assms(1)]] assms(2-)])

lemma inv_client:
  assumes "session_inv s"
  shows "session_inv (dispatch cfg (Client_socketError e) s)"
    "session_inv (dispatch cfg (Client_error e) s)"
    "session_inv (dispatch cfg Client_close s)"
    "session_inv (dispatch cfg Client_timeout s)"
    "session_inv (dispatch cfg (Upload_error e) s)"
  by (rule inv_frame [OF assms]; simp add: Let_def)+

lemma inv_upload:
  assumes "session_inv s"
  shows "session_inv (dispatch cfg (Upload_response status) s)"
    "session_inv (dispatch cfg (Upload_data chunk) s)"
    "session_inv (dispatch cfg Upload_end s)"
  by (rule inv_frame [OF assms];
      simp add: Let_def upload_response_def upload_end_def split: option.splits upload_phase.splits)+

lemma inv_pipeline:
  assumes "session_inv s"
  shows "session_inv (dispatch cfg (InfoFile_resolved p) s)"
    "session_inv (dispatch cfg (InfoFile_rejected e) s)"
    "session_inv (dispatch cfg (TarStdout_error e) s)"
    "session_inv (dispatch cfg (Tar_error e) s)"
    "session_inv (dispatch cfg (Tar_exit c) s)"
    "session_inv (dispatch cfg (Zstd_error e) s)"
    "session_inv (dispatch cfg (Zstd_exit c) s)"
    "session_inv (dispatch cfg ZstdStdout_end s)"
  by (rule inv_frame [OF assms];
      simp add: Let_def spawn_pipeline_def split: pipeline_phase.splits)+

lemma inv_status:
  assumes "session_inv s"
  shows "session_inv (dispatch cfg Timer_fired s)"
    "session_inv (dispatch cfg (Status_error e) s)"
    "session_inv (dispatch cfg (Status_response status) s)"
  using assms settle_status(1,2,3) [OF inv_settle [OF assms], of cfg]
  by (auto simp: session_inv_def settle_inv_def [of s] settle_simps Let_def listenEvents_def
      status_response_def checkStatus_def split: option.splits timer_phase.splits)

lemma inv_set_download:
  assumes "session_inv s" "k < length (downloads s)" "phase (downloads s ! k) \<noteq> DlDone"
    "phase (f (downloads s ! k)) \<noteq> DlDone"
  shows "session_inv (set_download k f s)"
  using assms settle_set_download [of s k f] inv_settle [OF assms(1)]
  by (auto simp: session_inv_def split: option.splits)

lemma inv_listen_reject:
  assumes "session_inv s" "grace s = TimerFired"
  shows "session_inv (listen_reject e s)"
  using assms settle_listen_reject [OF inv_settle [OF assms(1)] assms(2), of e]
  by (auto simp: session_inv_def settle_simps split: option.splits)

lemma inv_downloads_fired:
  "session_inv s \<Longrightarrow> k < length (downloads s) \<Longrightarrow> grace s = TimerFired"
  by (auto dest: inv_settle settle_fired(1))

lemma fileWritten_same [simp]:
  "finishedStreamCount (fileWritten cfg k s) = finishedStreamCount s + 1"
  "files (fileWritten cfg k s) = files s"
  "downloads (fileWritten cfg k s) = downloads s"
  "status_st (fileWritten cfg k s) = status_st s"
  "grace (fileWritten cfg k s) = grace s"
  "pipeline (fileWritten cfg k s) = pipeline s"
  "upload_st (fileWritten cfg k s) = upload_st s"
  "halted (fileWritten cfg k s) = halted s"
  by (simp_all add: fileWritten_def Let_def)

lemma fileWritten_listen:
  "listen (fileWritten cfg k s) =
     (if not_nullish (files s) \<and> reached_length (finishedStreamCount s + 1) (the (files s))
         \<and> listen s = Pending
      then Fulfilled None else listen s)"
  by (simp add: fileWritten_def Let_def settle_simps)

lemma fileWritten_job:
  "job (fileWritten cfg k s) =
     (if not_nullish (files s) \<and> reached_length (finishedStreamCount s + 1) (the (files s))
         \<and> listen s = Pending \<and> job s = Pending
      then Fulfilled None else job s)"
  by (simp add: fileWritten_def Let_def settle_simps)

lemma not_nullish_SomeD:
  "not_nullish x \<Longrightarrow> x \<noteq> None"
  by (cases x) simp_all

lemma reached_length_mono:
  "reached_length n v \<Longrightarrow> reached_length (Suc n) v"
  by (cases v) simp_all

lemma inv_fileWritten:
  assumes "session_inv s" "k < length (downloads s)" "phase (downloads s ! k) \<noteq> DlDone"
  shows "session_inv (fileWritten cfg k (set_download k (\<lambda>d. d\<lparr>phase := DlDone\<rparr>) s))"
  using assms settle_fileWritten [OF inv_settle [OF assms(1)] assms(2,3), of cfg]
  by (auto simp: session_inv_def fileWritten_listen dest: not_nullish_SomeD reached_length_mono
      split: option.splits if_splits)

lemma inv_download:
  assumes "session_inv s"
  shows "session_inv (dispatch cfg (Download_error k e) s)"
    "session_inv (dispatch cfg (Download_data k chunk) s)"
    "session_inv (dispatch cfg (Download_end k) s)"
    "session_inv (dispatch cfg (OutputFile_resolved k) s)"
    "session_inv (dispatch cfg (OutputFile_rejected k e) s)"
    "session_inv (dispatch cfg (EnsureDir_resolved k) s)"
    "session_inv (dispatch cfg (EnsureDir_rejected k e) s)"
    "session_inv (dispatch cfg (FileStream_error k e) s)"
    "session_inv (dispatch cfg (FileStream_close k) s)"
  using assms
  by (auto simp: Let_def download_end_def open_file_stream_def
      intro!: inv_fileWritten inv_set_download inv_emit inv_listen_reject
      dest!: phase_ofD dest: inv_downloads_fired)

lemma inv_download_response:
  assumes "session_inv s"
  shows "session_inv (dispatch cfg (Download_response k status) s)"
  using assms
  by (auto simp: Let_def download_response_def checkStatus_def
      intro!: inv_set_download inv_emit inv_listen_reject inv_throw
      dest!: phase_ofD dest: inv_downloads_fired split: option.splits json.splits)

lemma downloadFile_length_le:
  "length (downloads (downloadFile cfg i a s)) \<le> length (downloads s) + 1"
  by (simp add: downloadFile_def Let_def split: option.splits json.splits)

lemma downloadFile_nonempty:
  "downloads s \<noteq> [] \<Longrightarrow> downloads (downloadFile cfg i a s) \<noteq> []"
  by (simp add: downloadFile_def Let_def split: option.splits json.splits)

lemma inv_downloadFile:
  assumes "session_inv s" "files s = Some v" "length (downloads s) < capacity v"
  shows "session_inv (downloadFile cfg i a s)"
  using assms downloadFile_length_le [of cfg i a s] downloadFile_nonempty [of s cfg i a]
    settle_downloadFile [OF inv_settle [OF assms(1)], of cfg i a]
  by (auto simp: session_inv_def settle_inv_def [of s])

lemma inv_start_downloads:
  assumes "session_inv s" "files s = Some v" "length (downloads s) + length as \<le> capacity v"
  shows "session_inv (start_downloads cfg i as s)"
  using assms
proof (induction as arbitrary: s)
  case Nil
  then show ?case by simp
next
  case (Cons a as)
  let ?before = "emit (Log (''Downloading '' @ template (get_prop a ''file''))) s"
  let ?after = "downloadFile cfg i a ?before"
  have i0: "session_inv ?before"
    by (rule inv_emit) (use Cons.prems in simp_all)
  have i1: "session_inv ?after"
    by (rule inv_downloadFile [OF i0, of v]) (use Cons.prems in simp_all)
  have len: "length (downloads ?after) + length as \<le> capacity v"
    using downloadFile_length_le [of cfg i a ?before] Cons.prems by simp
  show ?case
  proof (cases "a = JNull")
    case True
    then show ?thesis using Cons.prems(1) by (simp add: inv_throw)
  next
    case False
    show ?thesis
    proof (cases "halted ?after \<noteq> None")
      case True
      then show ?thesis using i1 \<open>a \<noteq> JNull\<close> by (simp add: Let_def)
    next
      case False
      have "session_inv (start_downloads cfg i as ?after)"
        by (rule Cons.IH [OF i1 _ len]) (use Cons.prems in simp)
      then show ?thesis using False \<open>a \<noteq> JNull\<close> by (simp add: Let_def)
    qed
  qed
qed

text \<open>A loop over a string starts no download: \<^verbatim>\<open>path.join\<close> throws at its first code
  point.\<close>

lemma downloadFile_string:
  "downloads (downloadFile cfg i (JString c) s) = downloads s"
  "halted (downloadFile cfg i (JString c) s) \<noteq> None"
  by (simp_all add: downloadFile_def Let_def throw_def split: option.splits)

lemma start_downloads_strings:
  "downloads (start_downloads cfg i (map JString cps) s) = downloads s"
  by (cases cps) (simp_all add: Let_def downloadFile_string)

lemma inv_close_status:
  assumes "session_inv s" "status_st s = StReceiving"
  shows "session_inv ((emit (StreamDestroy StatusStream) (s\<lparr>status_st := StClosed\<rparr>))\<lparr>files := Some v\<rparr>)"
    and "downloads s = []"
  using assms
  by (auto simp: session_inv_def settle_inv_def split: option.splits)

lemma inv_error_event:
  assumes "session_inv s" "status_st s = StReceiving"
  shows "session_inv (listen_resolve (Some d) (emit (StreamDestroy StatusStream) (s\<lparr>status_st := StClosed\<rparr>)))"
  using assms
  by (auto simp: session_inv_def settle_inv_def settle_simps split: option.splits)

lemma inv_manifest:
  assumes "session_inv s" "status_st s = StReceiving"
  shows "session_inv
           (case iterate v of
              None \<Rightarrow> throw TypeError ((emit (StreamDestroy StatusStream) (s\<lparr>status_st := StClosed\<rparr>))\<lparr>files := Some v\<rparr>)
            | Some entries \<Rightarrow>
                start_downloads cfg i entries
                  ((emit (StreamDestroy StatusStream) (s\<lparr>status_st := StClosed\<rparr>))\<lparr>files := Some v\<rparr>))"
proof -
  let ?closed = "(emit (StreamDestroy StatusStream) (s\<lparr>status_st := StClosed\<rparr>))\<lparr>files := Some v\<rparr>"
  have c: "session_inv ?closed" and e: "downloads ?closed = []"
    using inv_close_status(1) [OF assms, of v] inv_close_status(2) [OF assms] by simp_all
  have g: "grace ?closed = TimerFired"
    using settle_fired(2) [OF inv_settle [OF assms(1)]] assms(2) by simp
  have t: "session_inv (throw TypeError ?closed)"
    by (rule inv_throw [OF c])
  show ?thesis
  proof (cases "iterate v")
    case None
    then show ?thesis using t by simp
  next
    case (Some entries)
    have "session_inv (start_downloads cfg i entries ?closed)"
    proof (cases v)
      case (JArray xs)
      then have "entries = xs" using Some by simp
      then show ?thesis
        using inv_start_downloads [OF c, of v xs cfg i] e JArray by simp
    next
      case (JString str)
      then have en: "entries = map JString (code_points str)" using Some by simp
      have st: "settle_inv (start_downloads cfg i entries ?closed)"
        by (rule settle_start_downloads [OF inv_settle [OF c] g])
      show ?thesis
        by (rule inv_cong [OF c st]) (simp_all add: en start_downloads_strings)
    qed (use Some in simp_all)
    then show ?thesis using Some by simp
  qed
qed

lemma has_prop_get:
  assumes "has_prop data k"
  shows "\<exists>v. get_prop data k = Some v"
proof (cases data)
  case (JObject kvs)
  then have "map_of kvs k \<noteq> None"
    using assms by (simp add: map_of_eq_None_iff)
  then show ?thesis
    using JObject by auto
qed (use assms in simp_all)

lemma inv_status_event:
  assumes "session_inv s" "status_st s = StReceiving"
  shows "session_inv (status_event cfg i data s)"
proof -
  have i1: "session_inv (debug cfg m s)" and r1: "status_st (debug cfg m s) = StReceiving" for m
    using assms by (simp_all add: inv_debug)
  have b1: "session_inv (throw x (debug cfg m s))" for x m
    by (rule inv_throw [OF i1])
  have b2: "session_inv (listen_resolve (Some d)
              (emit (StreamDestroy StatusStream) (debug cfg m s\<lparr>status_st := StClosed\<rparr>)))" for d m
    by (rule inv_error_event [OF i1 r1])
  have b3: "session_inv (emit (Log l) (debug cfg m s))"
    "session_inv (emit (LogValue v) (debug cfg m s))"
    "session_inv (emit (Warn l) (debug cfg m s))" for l v m
    by (simp_all add: inv_emit [OF i1])
  have b4: "session_inv
           (case iterate v of
              None \<Rightarrow> throw TypeError ((emit (StreamDestroy StatusStream) (debug cfg m s\<lparr>status_st := StClosed\<rparr>))\<lparr>files := Some v\<rparr>)
            | Some entries \<Rightarrow>
                start_downloads cfg i entries
                  ((emit (StreamDestroy StatusStream) (debug cfg m s\<lparr>status_st := StClosed\<rparr>))\<lparr>files := Some v\<rparr>))" for v m
    by (rule inv_manifest [OF i1 r1])
  show ?thesis
  proof (cases "has_prop data ''files''")
    case True
    then obtain v where v: "get_prop data ''files'' = Some v"
      using has_prop_get by blast
    show ?thesis
      unfolding status_event_def Let_def v
      by (simp add: True b1 b2 b3 b4 split: json.split)
  next
    case False
    then show ?thesis
      unfolding status_event_def Let_def
      by (simp add: b1 b2 b3 split: json.split)
  qed
qed

lemma status_event_nonterminal:
  "\<not> terminal_frame data \<Longrightarrow> status_st (status_event cfg i data s) = status_st s"
  by (auto simp: status_event_def terminal_frame_def Let_def split: json.split)

lemma inv_parseIncoming:
  assumes "session_inv s" "status_st s = StReceiving" "well_framed frames"
  shows "session_inv (parseIncoming cfg i frames s)"
  using assms
proof (induction frames arbitrary: s)
  case Nil
  then show ?case by simp
next
  case (Cons data frames)
  have i1: "session_inv (status_event cfg i data s)"
    by (rule inv_status_event [OF Cons.prems(1,2)])
  show ?case
  proof (cases "terminal_frame data")
    case True
    then have "frames = []" using Cons.prems(3) by simp
    then show ?thesis using i1 by (simp add: Let_def)
  next
    case False
    then have "status_st (status_event cfg i data s) = StReceiving" "well_framed frames"
      using Cons.prems(2,3) by (simp_all add: status_event_nonterminal)
    then show ?thesis
      using Cons.IH [OF i1] i1 by (simp add: Let_def)
  qed
qed

lemma inv_step:
  assumes "session_inv s" "framed ev \<or> status_st s \<noteq> StReceiving"
  shows "session_inv (step cfg ev s)"
proof (cases "halted s = None")
  case False
  then show ?thesis using assms by (auto simp: step_def)
next
  case True
  note i = assms(1)
  have "session_inv (dispatch cfg ev s)"
  proof (cases ev)
    case (Status_decoded frames)
    then show ?thesis
      using assms by (auto simp: inv_parseIncoming)
  qed (simp_all only: inv_client [OF i] inv_upload [OF i] inv_pipeline [OF i]
          inv_status [OF i] inv_download [OF i] inv_download_response [OF i])
  then show ?thesis using True by (simp add: step_def)
qed

lemma inv_run:
  "session_inv s \<Longrightarrow> list_all framed evs \<Longrightarrow> session_inv (run cfg evs s)"
  by (induction evs arbitrary: s) (simp_all add: inv_step)

lemma inv_start:
  "session_inv (start cfg customHeaders)"
proof -
  have "files (start cfg customHeaders) = None" "downloads (start cfg customHeaders) = []"
    "listen (start cfg customHeaders) = Pending"
    by (simp_all add: start_def build_def doBuild_def upload_def uploadUnpackedAppArchive_def
      RemoteBuildManager_def Let_def debug_def emit_def reject_def)
  then show ?thesis
    using settle_start [of cfg customHeaders] by (simp add: session_inv_def)
qed

lemma inv_reachable:
  "list_all framed evs \<Longrightarrow> session_inv (run cfg evs (start cfg customHeaders))"
  by (rule inv_run [OF inv_start])

text \<open>Once the status stream is closed it stays closed, and every event keeps the
  invariant.\<close>

lemma closed_dispatch:
  assumes "settle_inv s" "status_st s = StClosed"
  shows "status_st (dispatch cfg ev s) = StClosed"
  using assms
  by (cases ev)
    (auto simp: settle_inv_def Let_def upload_response_def upload_end_def spawn_pipeline_def
      listenEvents_def status_response_def checkStatus_def
      download_response_def download_end_def open_file_stream_def
      split: option.splits json.splits upload_phase.splits pipeline_phase.splits timer_phase.splits)

lemma closed_run:
  assumes "session_inv s" "status_st s = StClosed"
  shows "session_inv (run cfg evs s) \<and> status_st (run cfg evs s) = StClosed"
  using assms
proof (induction evs arbitrary: s)
  case Nil
  then show ?case by simp
next
  case (Cons ev evs)
  have 1: "session_inv (step cfg ev s)"
    by (rule inv_step) (use Cons.prems in simp_all)
  have 2: "status_st (step cfg ev s) = StClosed"
    using Cons.prems closed_dispatch [OF inv_settle [OF Cons.prems(1)]] by (simp add: step_def)
  show ?case
    using Cons.IH [OF 1 2] by simp
qed

subsection \<open>Traces\<close>

lemma run_append:
  "run cfg (evs @ evs') s = run cfg evs' (run cfg evs s)"
  by (induction evs arbitrary: s) simp_all

lemma run_snoc: "run cfg (evs @ [ev]) s = step cfg ev (run cfg evs s)"
  by (simp add: run_append)

lemma run_halted:
  "halted s \<noteq> None \<Longrightarrow> run cfg evs s = s"
  by (induction evs) (auto simp: step_def)

lemma status_event_count [simp]:
  "finishedStreamCount (status_event cfg i data s) = finishedStreamCount s"
  by (simp add: status_event_def Let_def split: option.split json.split)

lemma parseIncoming_count [simp]:
  "finishedStreamCount (parseIncoming cfg i frames s) = finishedStreamCount s"
  by (induction frames arbitrary: s) (simp_all add: Let_def)

lemma status_event_job_settled:
  "job s \<noteq> Pending \<Longrightarrow> job (status_event cfg i data s) = job s"
  by (simp add: status_event_def Let_def settle_simps split: option.split json.split)

lemma parseIncoming_job_settled:
  "job s \<noteq> Pending \<Longrightarrow> job (parseIncoming cfg i frames s) = job s"
  by (induction frames arbitrary: s) (simp_all add: Let_def status_event_job_settled)

text \<open>A settled job stays as it is.\<close>

lemma dispatch_job_settled:
  assumes "job s \<noteq> Pending"
  shows "job (dispatch cfg ev s) = job s"
  using assms
  by (cases ev)
    (auto simp: settle_simps Let_def upload_response_def upload_end_def spawn_pipeline_def
      listenEvents_def status_response_def checkStatus_def parseIncoming_job_settled
      download_response_def download_end_def open_file_stream_def fileWritten_job
      split: option.splits json.splits upload_phase.splits pipeline_phase.splits timer_phase.splits)

lemma step_job_settled:
  "job s \<noteq> Pending \<Longrightarrow> job (step cfg ev s) = job s"
  by (simp add: step_def dispatch_job_settled)

lemma run_job_settled:
  "job s \<noteq> Pending \<Longrightarrow> job (run cfg evs s) = job s"
  by (induction evs arbitrary: s) (simp_all add: step_job_settled)


lemma settled_destroyed:
  assumes "settle_inv s" "job s \<noteq> Pending"
  shows "session_destroys s = 1"
  using assms by (simp add: settle_inv_def)

subsection \<open>The manifest\<close>

lemma status_event_files_changed:
  assumes "files (status_event cfg i data s) \<noteq> files s"
  shows "job (status_event cfg i data s) = job s \<and> listen (status_event cfg i data s) = listen s"
  using assms
  by (simp add: status_event_def Let_def split: option.splits json.splits if_splits)

lemma status_event_nonterminal_same:
  assumes "\<not> terminal_frame data"
  shows "files (status_event cfg i data s) = files s"
    "job (status_event cfg i data s) = job s"
    "listen (status_event cfg i data s) = listen s"
    "downloads (status_event cfg i data s) = downloads s"
  using assms
  by (auto simp: status_event_def terminal_frame_def Let_def split: json.split)

lemma parseIncoming_files_changed:
  assumes "well_framed frames" "files (parseIncoming cfg i frames s) \<noteq> files s"
  shows "job (parseIncoming cfg i frames s) = job s \<and> listen (parseIncoming cfg i frames s) = listen s"
  using assms
proof (induction frames arbitrary: s)
  case Nil
  then show ?case by simp
next
  case (Cons data frames)
  show ?case
  proof (cases "terminal_frame data")
    case True
    then have "frames = []" using Cons.prems(1) by simp
    then have eq: "parseIncoming cfg i (data # frames) s = status_event cfg i data s"
      by (simp add: Let_def)
    show ?thesis
      unfolding eq using Cons.prems(2) [unfolded eq] by (rule status_event_files_changed)
  next
    case False
    note same = status_event_nonterminal_same [OF False, of cfg i s]
    show ?thesis
    proof (cases "halted (status_event cfg i data s) \<noteq> None")
      case True
      then show ?thesis using Cons.prems(2) same by (simp add: Let_def)
    next
      case h: False
      have "well_framed frames" using Cons.prems(1) False by simp
      moreover have "files (parseIncoming cfg i frames (status_event cfg i data s))
                       \<noteq> files (status_event cfg i data s)"
        using Cons.prems(2) h same by (simp add: Let_def)
      ultimately show ?thesis
        using Cons.IH [of "status_event cfg i data s"] h same by (simp add: Let_def)
    qed
  qed
qed

lemma dispatch_files_changed:
  assumes "framed ev" "files (dispatch cfg ev s) \<noteq> files s"
  shows "job (dispatch cfg ev s) = job s \<and> listen (dispatch cfg ev s) = listen s"
proof (cases ev)
  case (Status_decoded frames)
  then show ?thesis
    using assms parseIncoming_files_changed [of frames cfg "the (job_id s)" s]
    by (simp split: if_splits)
qed (use assms(2) in \<open>auto simp: Let_def upload_response_def upload_end_def spawn_pipeline_def
      listenEvents_def status_response_def checkStatus_def
      download_response_def download_end_def open_file_stream_def
      split: option.splits json.splits upload_phase.splits pipeline_phase.splits timer_phase.splits if_splits\<close>)

lemma closed_files_kept:
  assumes "status_st s = StClosed" "settle_inv s"
  shows "files (dispatch cfg ev s) = files s"
  using assms
  by (cases ev)
    (auto simp: settle_inv_def Let_def upload_response_def upload_end_def spawn_pipeline_def
      listenEvents_def status_response_def checkStatus_def
      download_response_def download_end_def open_file_stream_def
      split: option.splits json.splits upload_phase.splits pipeline_phase.splits timer_phase.splits)

lemma files_kept:
  assumes "session_inv s" "status_st s = StClosed"
  shows "files (run cfg evs s) = files s"
  using assms
proof (induction evs arbitrary: s)
  case Nil
  then show ?case by simp
next
  case (Cons ev evs)
  have f: "files (step cfg ev s) = files s"
    using Cons.prems closed_files_kept [OF Cons.prems(2) inv_settle [OF Cons.prems(1)]]
    by (simp add: step_def)
  have "session_inv (step cfg ev s) \<and> status_st (step cfg ev s) = StClosed"
    using closed_run [OF Cons.prems, of cfg "[ev]"] by simp
  then show ?case
    using Cons.IH [of "step cfg ev s"] f by simp
qed

lemma empty_manifest_unresolved:
  assumes "session_inv s" "files s = Some (JArray [])"
  shows "job s \<noteq> Fulfilled r"
proof
  assume "job s = Fulfilled r"
  then have l: "listen s = Fulfilled r"
    using assms(1) by (simp add: session_inv_def settle_inv_def)
  show False
    using assms l by (cases r) (auto simp: session_inv_def)
qed

lemma empty_manifest_dispatch:
  assumes "session_inv s" "files s = Some (JArray [])" "job s = Pending"
  shows "job (dispatch cfg ev s) = Pending
         \<or> (failure_event ev \<and> (\<exists>e. job (dispatch cfg ev s) = Rejected e))"
proof -
  have "status_st s = StClosed" "downloads s = []" "listen s = Pending" "upload_st s = UpClosed"
    using assms by (auto simp: session_inv_def settle_inv_def)
  then show ?thesis
    using assms(3)
    by (cases ev)
      (auto simp: Let_def settle_simps spawn_pipeline_def phase_of_def listenEvents_def
        split: pipeline_phase.splits timer_phase.splits)
qed

subsection \<open>The archive\<close>

lemma archive_effects_upd [simp]:
  "archive_effects (s\<lparr>job := a\<rparr>) = archive_effects s"
  "archive_effects (s\<lparr>handled := b\<rparr>) = archive_effects s"
  "archive_effects (s\<lparr>close_armed := b\<rparr>) = archive_effects s"
  "archive_effects (s\<lparr>timeout_armed := b\<rparr>) = archive_effects s"
  "archive_effects (s\<lparr>upload_st := c\<rparr>) = archive_effects s"
  "archive_effects (s\<lparr>pipeline := d\<rparr>) = archive_effects s"
  "archive_effects (s\<lparr>grace := e\<rparr>) = archive_effects s"
  "archive_effects (s\<lparr>listen := f\<rparr>) = archive_effects s"
  "archive_effects (s\<lparr>job_id := g\<rparr>) = archive_effects s"
  "archive_effects (s\<lparr>status_st := h\<rparr>) = archive_effects s"
  "archive_effects (s\<lparr>files := i\<rparr>) = archive_effects s"
  "archive_effects (s\<lparr>finishedStreamCount := j\<rparr>) = archive_effects s"
  "archive_effects (s\<lparr>downloads := k\<rparr>) = archive_effects s"
  "archive_effects (s\<lparr>halted := l\<rparr>) = archive_effects s"
  by (simp_all add: archive_effects_def)

lemma archive_effects_ops [simp]:
  "archive_effects (emit x s) = archive_effects s @ (if archive_effect x then [x] else [])"
  "archive_effects (debug cfg m s) = archive_effects s"
  "archive_effects (throw y s) = archive_effects s"
  "archive_effects (set_download k f s) = archive_effects s"
  "archive_effects (reject e s) = archive_effects s"
  "archive_effects (build_resolve r s) = archive_effects s"
  "archive_effects (listen_resolve r s) = archive_effects s"
  "archive_effects (listen_reject e s) = archive_effects s"
  by (simp_all add: archive_effects_def debug_def throw_def set_download_def reject_def
        build_resolve_def listen_resolve_def listen_reject_def Let_def)

lemma downloadFile_archive [simp]:
  "archive_effects (downloadFile cfg i a s) = archive_effects s"
  by (simp add: downloadFile_def Let_def split: option.splits json.splits)

lemma start_downloads_archive [simp]:
  "archive_effects (start_downloads cfg i as s) = archive_effects s"
  by (induction as arbitrary: s) (simp_all add: Let_def)

lemma status_event_archive [simp]:
  "archive_effects (status_event cfg i data s) = archive_effects s"
  "pipeline (status_event cfg i data s) = pipeline s"
  by (simp_all add: status_event_def Let_def split: option.split json.split)

lemma parseIncoming_archive [simp]:
  "archive_effects (parseIncoming cfg i frames s) = archive_effects s"
  "pipeline (parseIncoming cfg i frames s) = pipeline s"
  by (induction frames arbitrary: s; simp add: Let_def)+

lemma fileWritten_archive [simp]:
  "archive_effects (fileWritten cfg k s) = archive_effects s"
  by (simp add: fileWritten_def Let_def)

text \<open>Without the callback of the information file there is no archive.\<close>

lemma dispatch_not_started:
  assumes "pipeline s = NotStarted"
  shows "pipeline (dispatch cfg ev s) = NotStarted
         \<and> archive_effects (dispatch cfg ev s) = archive_effects s"
  using assms
  by (cases ev)
    (auto simp: Let_def upload_response_def upload_end_def
      listenEvents_def status_response_def checkStatus_def
      download_response_def download_end_def open_file_stream_def
      split: option.splits json.splits upload_phase.splits timer_phase.splits)

lemma run_not_started:
  assumes "pipeline s = NotStarted"
  shows "pipeline (run cfg evs s) = NotStarted
         \<and> archive_effects (run cfg evs s) = archive_effects s"
  using assms
proof (induction evs arbitrary: s)
  case Nil
  then show ?case by simp
next
  case (Cons ev evs)
  have "pipeline (step cfg ev s) = NotStarted \<and> archive_effects (step cfg ev s) = archive_effects s"
    using dispatch_not_started [OF Cons.prems, of cfg ev] Cons.prems by (simp add: step_def)
  then show ?case
    using Cons.IH [of "step cfg ev s"] by simp
qed

lemma start_same_dir:
  assumes "buildResourcesDir cfg = projectDir cfg"
  shows "job (start cfg customHeaders) = Rejected (Error buildResources_message)"
    and "pipeline (start cfg customHeaders) = NotStarted"
    and "archive_effects (start cfg customHeaders) = []"
    and "effects (start cfg customHeaders)
           = effects (RemoteBuildManager cfg)
             @ [Request (upload_headers customHeaders
                  (getZstdCompressionLevel (env_ZSTD_COMPRESSION cfg) (buildServiceEndpoint cfg))),
                SessionDestroy]"
  using assms
  by (simp_all add: start_def build_def doBuild_def upload_def uploadUnpackedAppArchive_def
      RemoteBuildManager_def Let_def settle_simps reject_effects debug_def archive_effects_def
      emit_def)

subsection \<open>The ways a pending job ends\<close>


text \<open>The events of the session and of the upload stream reject a job that is pending, and
  the session is destroyed with it.\<close>

lemma pending_rejected:
  assumes "settle_inv s" "halted s = None" "job s = Pending"
  shows "job (step cfg (Client_error e) s) = Rejected e"
    and "job (step cfg (Client_socketError e) s) = Rejected e"
    and "job (step cfg (Upload_error e) s) = Rejected e"
    and "job (step cfg Client_close s) = Rejected (Error ''Closed unexpectedly'')"
    and "job (step cfg Client_timeout s) = Rejected (Error ''Timeout'')"
  using assms by (simp_all add: settle_inv_def step_def settle_simps Let_def)

lemma pending_destroyed:
  assumes "settle_inv s" "halted s = None" "job s = Pending"
  shows "effects (step cfg (Client_error e) s) = effects s @ [SessionDestroy]"
    and "effects (step cfg (Client_socketError e) s) = effects s @ [SessionDestroy]"
    and "effects (step cfg (Upload_error e) s) = effects s @ [SessionDestroy]"
    and "effects (step cfg Client_close s) = effects s @ [SessionDestroy]"
    and "effects (step cfg Client_timeout s) = effects s @ [SessionDestroy]"
  using assms by (simp_all add: settle_inv_def step_def reject_effects Let_def)

subsection \<open>Downloads\<close>

lemma launch_inv_cong:
  "downloads s' = downloads s \<Longrightarrow> launch_inv cfg s' = launch_inv cfg s"
  by (simp add: launch_inv_def)

lemma in_set_updateE:
  assumes "d \<in> set (xs[k := x])"
  obtains "d = x" | "d \<in> set xs"
  using assms set_update_subset_insert [of xs k x] by auto

lemma launch_inv_set_download:
  assumes "launch_inv cfg s" "phase (f (downloads s ! k)) \<noteq> DlRequested"
  shows "launch_inv cfg (set_download k f s)"
  using assms by (auto simp: launch_inv_def elim!: in_set_updateE)







lemma dispatched_upd [simp]:
  "dispatched (s\<lparr>job := a\<rparr>) = dispatched s"
  "dispatched (s\<lparr>handled := b\<rparr>) = dispatched s"
  "dispatched (s\<lparr>listen := f\<rparr>) = dispatched s"
  "dispatched (s\<lparr>finishedStreamCount := j\<rparr>) = dispatched s"
  "dispatched (s\<lparr>downloads := k\<rparr>) = dispatched s"
  by (simp_all add: dispatched_def)

lemma dispatched_ops [simp]:
  "dispatched (emit x s) = dispatched s @ dispatched_event x"
  "dispatched (debug cfg m s) = dispatched s"
  "dispatched (set_download k f s) = dispatched s"
  "dispatched (listen_resolve r s) = dispatched s"
  by (simp_all add: dispatched_def emit_def debug_def set_download_def listen_resolve_def
      build_resolve_def Let_def)










section \<open>Properties\<close>

subsection \<open>Compression level\<close>

text \<open>
  C8. The claim: with no override in the environment the level is the low one for every
  loopback or localhost endpoint and the high one for every other endpoint, and an override
  is used whatever the endpoint. The two IPv4 and name patterns carry the scheme, the IPv6
  pattern does not, so the IPv6 loopback endpoint written with its scheme, the only form the
  connection accepts, gets the high level. The theorem evaluates the code there and at the
  two sibling endpoints, and shows that an override is returned as it is.
\<close>

theorem zstd_level_ipv6_loopback:
  "getZstdCompressionLevel None ''https://[::1]:443'' = ''19''
   \<and> getZstdCompressionLevel None ''https://127.0.0.1:443'' = ''3''
   \<and> getZstdCompressionLevel None ''https://localhost:443'' = ''3''
   \<and> getZstdCompressionLevel (Some v) endpoint = v"
  by (simp add: getZstdCompressionLevel_def startsWith_def)

subsection \<open>The completion barrier\<close>




subsection \<open>Teardown of the session\<close>

text \<open>
  C4. The claim: the session is destroyed exactly once per job on every exit path. The
  promise of \<^verbatim>\<open>build\<close> destroys the session when it settles, and the failures that the code
  hands to \<^verbatim>\<open>reject\<close> settle it. A body of the upload response that is not JSON makes
  \<^verbatim>\<open>JSON.parse\<close> throw inside the \<^verbatim>\<open>end\<close> listener, where nothing catches the exception: for
  the status 400 and the body \<^verbatim>\<open>Bad Request\<close> the job is left pending, the session is not
  destroyed, and no later event changes that.
\<close>

theorem unparsable_response_leaves_session_open:
  "halted (run example_config example_unparsable (start example_config [])) = Some SyntaxError
   \<and> job (run example_config example_unparsable (start example_config [])) = Pending
   \<and> session_destroys (run example_config example_unparsable (start example_config [])) = 0
   \<and> run example_config evs (run example_config example_unparsable (start example_config []))
       = run example_config example_unparsable (start example_config [])"
proof -
  let ?s = "run example_config example_unparsable (start example_config [])"
  have h: "halted ?s = Some SyntaxError"
    by code_simp
  have j: "job ?s = Pending"
    by code_simp
  have d: "session_destroys ?s = 0"
    by code_simp
  have "run example_config evs ?s = ?s"
    by (rule run_halted) (simp add: h)
  then show ?thesis
    using h j d by simp
qed

subsection \<open>A manifest without artifacts\<close>

text \<open>
  C10, as stated: if the manifest lists no artifact the job is never resolved, and it can
  only end through an error, close or timeout of the transport. An event with an error
  that follows the empty manifest in the same chunk of the status stream resolves the job,
  and an error of the compressor process after the empty manifest rejects it.
\<close>

theorem empty_manifest_job_ends_otherwise:
  "job (run example_config
          (example_accepted @ [Status_decoded [example_empty_manifest, example_error_event]])
          (start example_config []))
     = Fulfilled (Some example_error_event)
   \<and> job (run example_config
          (example_accepted @ [Status_decoded [example_empty_manifest], Zstd_error (Emitted ''write EPIPE'')])
          (start example_config []))
     = Rejected (Emitted ''write EPIPE'')"
  by code_simp

text \<open>
  C10, amended: let no chunk of the status stream hold an event after an event that ends
  the stream, and let a reachable state without manifest take an event that stores a
  manifest without artifacts. That event settles neither the promise of \<^verbatim>\<open>build\<close> nor the
  one of \<^verbatim>\<open>listenEvents\<close> and starts no download; whatever events follow, the job is not
  resolved; an event that ends a job still pending is a failure event (an \<^verbatim>\<open>error\<close>,
  \<^verbatim>\<open>socketError\<close>, \<^verbatim>\<open>close\<close> or \<^verbatim>\<open>timeout\<close> of the session, an \<^verbatim>\<open>error\<close> of the upload or the
  status stream, or a failure of the upload pipeline: the information file, the output of
  the packer, the compressor) and rejects it; and \<^verbatim>\<open>error\<close>, \<^verbatim>\<open>close\<close> and \<^verbatim>\<open>timeout\<close> of the
  session do reject a job that is pending.
\<close>

theorem empty_manifest_never_resolves:
  assumes "s0 = run cfg evs (start cfg customHeaders)" and "list_all framed evs" and "framed ev0"
    and "files s0 = None" and "s = step cfg ev0 s0" and "files s = Some (JArray [])"
    and "t = run cfg evs' s"
  shows "job s = job s0 \<and> listen s = listen s0 \<and> downloads s = []
       \<and> (\<forall>r. job t \<noteq> Fulfilled r)
       \<and> (job t = Pending \<and> job (step cfg ev t) \<noteq> Pending
            \<longrightarrow> failure_event ev \<and> (\<exists>e. job (step cfg ev t) = Rejected e))
       \<and> (job t = Pending \<and> halted t = None
            \<longrightarrow> job (step cfg (Client_error e) t) = Rejected e
              \<and> job (step cfg Client_close t) = Rejected (Error ''Closed unexpectedly'')
              \<and> job (step cfg Client_timeout t) = Rejected (Error ''Timeout''))"
proof -
  have i0: "session_inv s0"
    unfolding assms(1) by (rule inv_reachable [OF assms(2)])
  have i: "session_inv s"
    unfolding assms(5) by (rule inv_step [OF i0]) (simp add: assms(3))
  have ch: "files (dispatch cfg ev0 s0) \<noteq> files s0" and s: "s = dispatch cfg ev0 s0"
    using assms(4,6) by (auto simp: assms(5) step_def split: if_splits)
  have a: "job s = job s0 \<and> listen s = listen s0"
    using dispatch_files_changed [OF assms(3) ch] by (simp add: s)
  have cl: "status_st s = StClosed"
    using i assms(6) by (simp add: session_inv_def)
  have b: "downloads s = []"
    using i assms(6) by (simp add: session_inv_def)
  have it: "session_inv t"
    unfolding assms(7) using closed_run [OF i cl] by simp
  have ft: "files t = Some (JArray [])"
    unfolding assms(7) using files_kept [OF i cl] assms(6) by simp
  have c: "job t \<noteq> Fulfilled r" for r
    by (rule empty_manifest_unresolved [OF it ft])
  have d: "failure_event ev \<and> (\<exists>e. job (step cfg ev t) = Rejected e)"
    if p: "job t = Pending" and q: "job (step cfg ev t) \<noteq> Pending"
  proof (cases "halted t = None")
    case True
    then have "step cfg ev t = dispatch cfg ev t"
      by (simp add: step_def)
    then show ?thesis
      using empty_manifest_dispatch [OF it ft p, of cfg ev] q by auto
  next
    case False
    then have "step cfg ev t = t"
      by (auto simp: step_def)
    then show ?thesis using p q by simp
  qed
  have f: "job (step cfg (Client_error e) t) = Rejected e
         \<and> job (step cfg Client_close t) = Rejected (Error ''Closed unexpectedly'')
         \<and> job (step cfg Client_timeout t) = Rejected (Error ''Timeout'')"
    if "job t = Pending" and "halted t = None"
    using pending_rejected(1,4,5) [OF inv_settle [OF it] that(2,1)] by simp
  show ?thesis using a b c d f by blast
qed

theorem empty_manifest_never_resolves_witness:
  "list_all framed example_accepted
   \<and> files (run example_config example_accepted (start example_config [])) = None
   \<and> files (step example_config (Status_decoded [example_empty_manifest])
        (run example_config example_accepted (start example_config []))) = Some (JArray [])
   \<and> job (step example_config (Status_decoded [example_empty_manifest])
        (run example_config example_accepted (start example_config []))) = Pending
   \<and> downloads (step example_config (Status_decoded [example_empty_manifest])
        (run example_config example_accepted (start example_config []))) = []
   \<and> job (step example_config Client_timeout
        (step example_config (Status_decoded [example_empty_manifest])
          (run example_config example_accepted (start example_config [])))) = Rejected (Error ''Timeout'')"
proof -
  let ?before = "run example_config example_accepted (start example_config [])"
  let ?after = "step example_config (Status_decoded [example_empty_manifest]) ?before"
  have fr: "list_all framed example_accepted"
    by code_simp
  have fr0: "framed (Status_decoded [example_empty_manifest])"
    by code_simp
  have f0: "files ?before = None"
    by code_simp
  have f: "files ?after = Some (JArray [])"
    by code_simp
  have p0: "job ?before = Pending"
    by code_simp
  have h: "halted ?after = None"
    by code_simp
  have run0: "?after = run example_config [] ?after"
    by simp
  have all: "job ?after = job ?before \<and> downloads ?after = []
       \<and> (job ?after = Pending \<and> halted ?after = None
            \<longrightarrow> job (step example_config Client_timeout ?after) = Rejected (Error ''Timeout''))"
    using empty_manifest_never_resolves [OF refl fr fr0 f0 refl f run0, of Client_timeout] by blast
  show ?thesis
    using all fr f0 f p0 h by simp
qed

subsection \<open>A rejected upload\<close>

text \<open>
  C5, as stated: for the status \<^verbatim>\<open>bad request\<close> and the body \<^verbatim>\<open>{"message":"bad config"}\<close>
  the job is rejected with an error whose payload is that body, preserved verbatim. The
  code parses the body and prints the value again with an indentation of two spaces: the
  payload is a text of three lines, which is not the body.
\<close>

theorem diagnostic_is_reserialized:
  \<open>job (run example_config (example_bad_request @ [Upload_end]) (start example_config []))
     = Rejected (HttpError 400 (Some example_diagnostic))
   \<and> example_diagnostic \<noteq> ''{"message":"bad config"}''\<close>
  by code_simp

text \<open>
  C5, amended: when the \<^verbatim>\<open>end\<close> of the response arrives for a pending job, with the status
  400 and a body that \<^verbatim>\<open>JSON.parse\<close> reads as the value \<open>diagnostic\<close>, the job is rejected
  with the \<^verbatim>\<open>HttpError\<close> of status 400 whose description is
  \<^verbatim>\<open>JSON.stringify(diagnostic, null, 2)\<close>: the diagnostic of the server as a JSON value,
  printed anew.
\<close>

theorem bad_request_rejects_with_diagnostic:
  assumes "halted s = None" and "upload_st s = UpReceiving HTTP_STATUS_BAD_REQUEST body"
    and "body \<noteq> []" and "JSON_parse cfg body = Some diagnostic" and "job s = Pending"
  shows "job (step cfg Upload_end s)
           = Rejected (HttpError 400 (Some (JSON_stringify2 diagnostic)))"
  using assms
  by (simp add: step_def upload_end_def Let_def settle_simps HTTP_STATUS_BAD_REQUEST_def)

text \<open>For the body \<^verbatim>\<open>{"message":"bad config"}\<close> the description is that object printed with
  an indentation of two spaces, and it reads back as the same value.\<close>

theorem bad_request_rejects_with_diagnostic_witness:
  \<open>job (step example_config Upload_end
          (run example_config example_bad_request (start example_config [])))
     = Rejected (HttpError 400 (Some example_diagnostic))
   \<and> JSON_parse_fragment ''{"message":"bad config"}''
       = Some (JObject [(''message'', JString ''bad config'')])
   \<and> JSON_parse_fragment example_diagnostic
       = Some (JObject [(''message'', JString ''bad config'')])\<close>
proof -
  let ?before = "run example_config example_bad_request (start example_config [])"
  have h: "halted ?before = None"
    by code_simp
  have u: \<open>upload_st ?before = UpReceiving HTTP_STATUS_BAD_REQUEST ''{"message":"bad config"}''\<close>
    by code_simp
  have p: \<open>JSON_parse example_config ''{"message":"bad config"}''
             = Some (JObject [(''message'', JString ''bad config'')])\<close>
    by code_simp
  have j: "job ?before = Pending"
    by code_simp
  have s: "JSON_stringify2 (JObject [(''message'', JString ''bad config'')]) = example_diagnostic"
    by code_simp
  have p1: \<open>JSON_parse_fragment ''{"message":"bad config"}''
       = Some (JObject [(''message'', JString ''bad config'')])\<close>
    by code_simp
  have p2: \<open>JSON_parse_fragment example_diagnostic
       = Some (JObject [(''message'', JString ''bad config'')])\<close>
    by code_simp
  show ?thesis
    using bad_request_rejects_with_diagnostic [OF h u _ p j] s p1 p2 by simp
qed

subsection \<open>An error event on the status stream\<close>




subsection \<open>Failures of the compression processes\<close>

text \<open>
  C6, as stated: a failure of either process, by a spawn failure or a non-zero exit code,
  rejects the job. The code listens to no exit of either process: after the archive packer
  has exited with code 2 the job is still pending and the session is not destroyed.
\<close>

theorem packer_exit_code_ignored:
  "pipeline (run example_config [InfoFile_resolved ''/p/dist/info.json'', Tar_exit 2]
              (start example_config [])) = Compressing
   \<and> job (run example_config [InfoFile_resolved ''/p/dist/info.json'', Tar_exit 2]
              (start example_config [])) = Pending
   \<and> session_destroys (run example_config [InfoFile_resolved ''/p/dist/info.json'', Tar_exit 2]
              (start example_config [])) = 0"
  by code_simp

text \<open>
  C6, amended: while the two processes run and the job is pending, an \<^verbatim>\<open>error\<close> event of
  the block compressor (it could not be spawned) and an \<^verbatim>\<open>error\<close> of the output stream of
  the archive packer each reject the job with that very error and destroy the session,
  which ends every stream of it; the exit of either process, whatever its code, changes
  nothing.
\<close>

theorem compressor_failure_rejects:
  assumes "halted s = None" and "pipeline s = Compressing" and "job s = Pending"
  shows "job (step cfg (Zstd_error e) s) = Rejected e
       \<and> effects (step cfg (Zstd_error e) s) = effects s @ [SessionDestroy]
       \<and> job (step cfg (TarStdout_error e) s) = Rejected e
       \<and> effects (step cfg (TarStdout_error e) s) = effects s @ [SessionDestroy]
       \<and> step cfg (Tar_exit code) s = s
       \<and> step cfg (Zstd_exit code) s = s"
  using assms by (simp add: step_def settle_simps reject_effects)

theorem compressor_failure_rejects_witness:
  "job (step example_config (Zstd_error (Emitted ''spawn zstd ENOENT''))
         (run example_config [InfoFile_resolved ''/p/dist/info.json''] (start example_config [])))
     = Rejected (Emitted ''spawn zstd ENOENT'')
   \<and> step example_config (Zstd_exit 1)
         (run example_config [InfoFile_resolved ''/p/dist/info.json''] (start example_config []))
     = run example_config [InfoFile_resolved ''/p/dist/info.json''] (start example_config [])"
proof -
  let ?before = "run example_config [InfoFile_resolved ''/p/dist/info.json''] (start example_config [])"
  have h: "halted ?before = None"
    by code_simp
  have c: "pipeline ?before = Compressing"
    by code_simp
  have j: "job ?before = Pending"
    by code_simp
  show ?thesis
    using compressor_failure_rejects [OF h c j] by simp
qed

subsection \<open>Build resources in the project directory\<close>

text \<open>
  C2, as stated: if the build resources directory is the project directory, the build
  fails before any network stream is opened, so that no \<^verbatim>\<open>/v1/upload\<close> request is created.
  \<^verbatim>\<open>upload\<close> calls \<^verbatim>\<open>client.request\<close> before \<^verbatim>\<open>uploadUnpackedAppArchive\<close>, where the
  directories are compared: with both directories \<^verbatim>\<open>/p\<close> the request for \<^verbatim>\<open>/v1/upload\<close> is
  the effect that follows the connection, and the session is destroyed after it.
\<close>

theorem upload_request_opened_first:
  "buildResourcesDir example_same_dir = projectDir example_same_dir
   \<and> effects (start example_same_dir [])
       = [Connect ''https://build.example.org:443''
            \<lparr>ca = Some ELECTRON_BUILD_SERVICE_CA_CERT, checkServerIdentity_off = True\<rparr>,
          Request [('':path'', ''/v1/upload''), ('':method'', ''POST''),
                   (''content-type'', ''application/octet-stream''),
                   (''x-zstd-compression-level'', ''19'')],
          SessionDestroy]"
  by code_simp

text \<open>
  C2, amended: if the build resources directory is the project directory, \<^verbatim>\<open>build\<close>
  rejects the job with the error that says so right after it has opened the request
  stream for \<^verbatim>\<open>/v1/upload\<close>, the session is destroyed, and, whatever events follow, the job
  stays rejected with that error, no process is spawned and nothing is piped into the
  request.
\<close>

theorem same_dir_rejected_after_request:
  assumes "buildResourcesDir cfg = projectDir cfg"
    and "s = run cfg evs (start cfg customHeaders)"
  shows "job s = Rejected (Error buildResources_message)
       \<and> effects (start cfg customHeaders)
           = effects (RemoteBuildManager cfg)
             @ [Request (upload_headers customHeaders
                  (getZstdCompressionLevel (env_ZSTD_COMPRESSION cfg) (buildServiceEndpoint cfg))),
                SessionDestroy]
       \<and> pipeline s = NotStarted
       \<and> archive_effects s = []"
  using start_same_dir [OF assms(1), of customHeaders]
    run_not_started [of "start cfg customHeaders" cfg evs]
    run_job_settled [of "start cfg customHeaders" cfg evs]
  by (simp add: assms(2))

theorem same_dir_rejected_after_request_witness:
  "job (run example_same_dir [InfoFile_resolved ''/p/dist/info.json'', Upload_response 200]
         (start example_same_dir [])) = Rejected (Error buildResources_message)
   \<and> archive_effects (run example_same_dir [InfoFile_resolved ''/p/dist/info.json'', Upload_response 200]
         (start example_same_dir [])) = []"
proof -
  have d: "buildResourcesDir example_same_dir = projectDir example_same_dir"
    by code_simp
  show ?thesis
    using same_dir_rejected_after_request [OF d refl,
        of "[InfoFile_resolved ''/p/dist/info.json'', Upload_response 200]" "[]"]
    by blast
qed

subsection \<open>Retrieval of an artifact\<close>



subsection \<open>The path of a download request\<close>

text \<open>
  C7. The claim: for every file name with spaces and characters outside ASCII, the path of
  the download request, percent-decoded, gives the file name back. The path is the
  \<^verbatim>\<open>pathname\<close> of a URL made from the identifier of the job and the file name, and a URL
  ends its path at the first \<^verbatim>\<open>#\<close> or \<^verbatim>\<open>?\<close>: for the job \<^verbatim>\<open>j1\<close> and the name
  \<open>C# Sample \<ss>.exe\<close> the request asks for \<^verbatim>\<open>/v1/download/j1/C\<close>. For the name of the comment
  in the code, \<open>boo-Test App \<ss>W\<close>, the spaces and the two bytes of \<open>\<ss>\<close> are escaped and the
  decoded path ends in the name.
\<close>

theorem file_name_cut_at_hash:
  "download_path example_config (JString ''j1'')
       (Some (JString (''C# Sample '' @ [CHR 0xC3, CHR 0x9F] @ ''.exe'')))
     = Some ''/v1/download/j1/C''
   \<and> percent_decode ''/v1/download/j1/C'' = ''/v1/download/j1/C''
   \<and> download_path example_config (JString ''j1'')
       (Some (JString (''boo-Test App '' @ [CHR 0xC3, CHR 0x9F] @ ''W'')))
     = Some ''/v1/download/j1/boo-Test%20App%20%C3%9FW''
   \<and> percent_decode ''/v1/download/j1/boo-Test%20App%20%C3%9FW''
     = ''/v1/download/j1/boo-Test App '' @ [CHR 0xC3, CHR 0x9F] @ ''W''"
  by code_simp

end
